theory Spec2Isabelle
  imports Main "HOL-Library.Multiset"
begin

section \<open>The MCP server manager of yolo-cli\<close>

text \<open>
  A shallow embedding of \<^verbatim>\<open>src/services/mcp.ts\<close> (the class
  \<^verbatim>\<open>McpServerManager\<close>), of the configuration loader
  \<^verbatim>\<open>src/utils/mcp-config.ts\<close> and of the types of
  \<^verbatim>\<open>src/types/mcp.ts\<close>.

  Conventions of the embedding.
  \<^item> A JavaScript string is a \<open>string\<close>: a list of code units.
  \<^item> An \<open>Error\<close> object is a \<open>js_error\<close>: a message and an optional \<open>code\<close>
    property. What the runtime throws (\<open>fs.readFile\<close>, \<open>JSON.parse\<close>) and what the
    SDK's \<open>connect\<close> and \<open>listTools\<close> reject with are \<open>Error\<close> objects. A rejection of
    \<open>client.callTool\<close> or \<open>client.close\<close> is any value a client may throw, \<open>null\<close> and
    \<open>undefined\<close> included (\<open>js_thrown\<close>): their \<open>catch\<close> blocks read its \<open>message\<close>.
  \<^item> An \<open>async\<close> function that can reject returns a sum, \<open>Inl\<close> the rejection. A
    function whose every throwing call sits in a \<open>try\<close> with a \<open>catch\<close> that cannot
    throw is a total function to its result.
  \<^item> The SDK client (process spawn, handshake, tool listing, tool call, close) is
    outside the repository: its answers are the fields of the record \<open>sdk\<close>.
  \<^item> Readings of the clock (\<open>startedAt\<close>, \<open>timestamp\<close>, \<open>durationMs\<close>) are left
    out, and \<open>console\<close> output is kept where a property speaks of it.
  \<^item> A record field is a constant, so a local variable of the source that shares its
    name with a field is abbreviated (\<open>nm\<close> for \<open>name\<close>, \<open>cfg\<close> for \<open>config\<close>).
\<close>

subsection \<open>Strings: \<open>indexOf\<close> and \<open>slice\<close>\<close>

text \<open>
  \<open>String.prototype.indexOf\<close>: the least position at which the pattern starts, or
  \<open>-1\<close>. \<open>find_from s pat i\<close> searches \<open>s\<close>, whose first code unit has position \<open>i\<close>.
\<close>

fun find_from :: "string \<Rightarrow> string \<Rightarrow> nat \<Rightarrow> nat option" where
  "find_from [] pat i = (if pat = [] then Some i else None)"
| "find_from (c # cs) pat i =
     (if take (length pat) (c # cs) = pat then Some i else find_from cs pat (Suc i))"

definition indexOf :: "string \<Rightarrow> string \<Rightarrow> int" where
  "indexOf s pat = (case find_from s pat 0 of None \<Rightarrow> - 1 | Some i \<Rightarrow> int i)"

text \<open>
  \<open>String.prototype.slice\<close>: a negative index counts from the end, and every index is
  clamped to the string.
\<close>

definition clamp_index :: "int \<Rightarrow> nat \<Rightarrow> nat" where
  "clamp_index i n = (if i < 0 then nat (max 0 (int n + i)) else min (nat i) n)"

definition slice :: "string \<Rightarrow> int \<Rightarrow> int \<Rightarrow> string" where
  "slice s a b =
     (let from = clamp_index a (length s); to = clamp_index b (length s)
      in take (to - from) (drop from s))"

definition slice_from :: "string \<Rightarrow> int \<Rightarrow> string" where
  "slice_from s a = drop (clamp_index a (length s)) s"

subsection \<open>Types (\<^verbatim>\<open>src/types/mcp.ts\<close>)\<close>

text \<open>A JSON value: tool arguments, input schemas, tool output, parsed files.\<close>

datatype json =
    JNull
  | JBool bool
  | JNum int
  | JStr string
  | JArr "json list"
  | JObj "(string \<times> json) list"

record js_error =
  js_message :: string
  js_code :: "string option"

text \<open>
  A thrown value: \<open>null\<close>, \<open>undefined\<close>, or an \<open>Error\<close> object. Reading the property
  \<open>message\<close> of \<open>null\<close> or \<open>undefined\<close> throws a \<open>TypeError\<close>, which has no \<open>code\<close>.
\<close>

datatype js_thrown = ThrownNull | ThrownUndefined | Thrown js_error

definition type_error :: "string \<Rightarrow> js_error" where
  "type_error what =
     \<lparr>js_message = ''Cannot read properties of '' @ what @ '' (reading '' @ [CHR 0x27]
                      @ ''message'' @ [CHR 0x27] @ '')'',
      js_code = None\<rparr>"

definition read_message :: "js_thrown \<Rightarrow> js_error + string" where
  "read_message e =
     (case e of
        ThrownNull \<Rightarrow> Inl (type_error ''null'')
      | ThrownUndefined \<Rightarrow> Inl (type_error ''undefined'')
      | Thrown err \<Rightarrow> Inr (js_message err))"

record McpServerConfig =
  command :: string
  args :: "string list option"
  env :: "(string \<times> string) list option"
  timeout :: "int option"
  url :: "string option"
  headers :: "(string \<times> string) list option"

text \<open>
  \<open>McpConfig\<close> has the one field \<open>mcpServers\<close>, a plain object. The model keeps its own
  enumerable properties as \<open>Object.entries\<close> lists them; the keys of an object are
  distinct.
\<close>

type_synonym McpConfig = "(string \<times> McpServerConfig) list"

datatype source_tag = Global | Project

text \<open>
  A plain object whose values are objects: its own properties, and its prototype when
  that is no longer \<open>Object.prototype\<close> (\<open>proto = None\<close> is the prototype a literal
  \<open>{}\<close> starts with).
\<close>

record 'v js_object =
  own :: "(string \<times> 'v) list"
  proto :: "'v option"

record MergedConfig =
  mcpServers :: "McpServerConfig js_object"
  sources :: "(string \<times> source_tag) list"

datatype McpServerState = CREATED | CONNECTING | INITIALIZED | OPERATING | FAILED | CLOSED

text \<open>The string value of each member of the enum.\<close>

fun state_string :: "McpServerState \<Rightarrow> string" where
  "state_string CREATED = ''created''"
| "state_string CONNECTING = ''connecting''"
| "state_string INITIALIZED = ''initialized''"
| "state_string OPERATING = ''operating''"
| "state_string FAILED = ''failed''"
| "state_string CLOSED = ''closed''"

record McpServerError =
  code :: string
  message :: string
  serverName :: string
  configPath :: string
  details :: "js_error option"

text \<open>
  \<open>McpTool.server\<close> points back to the instance that owns the tool; the model keeps
  \<open>serverName\<close> (here \<open>tool_serverName\<close>), which names that instance.
\<close>

record McpTool =
  name :: string
  originalName :: string
  description :: string
  inputSchema :: json
  tool_serverName :: string

text \<open>
  \<open>McpServerInstance.client\<close> is the SDK client of the instance; the model finds its
  answers in \<open>sdk\<close> under the instance's name.
\<close>

record McpServerInstance =
  inst_name :: string
  config :: McpServerConfig
  state :: McpServerState
  tools :: "McpTool list"
  source :: source_tag
  error :: "McpServerError option"

record ToolExecutionError =
  exec_code :: string
  exec_message :: string
  toolName :: string
  arguments :: json
  exec_details :: "js_error option"

record ToolMetadata =
  meta_serverName :: string
  meta_toolName :: string

record ToolResult =
  success :: bool
  content :: "json list option"
  result_error :: "ToolExecutionError option"
  metadata :: "ToolMetadata option"

record LoadResult =
  servers :: "McpServerInstance list"
  errors :: "McpServerError list"
  toolCount :: nat

definition SPAWN_FAILED :: string where "SPAWN_FAILED = ''SPAWN_FAILED''"
definition CONNECT_TIMEOUT :: string where "CONNECT_TIMEOUT = ''CONNECT_TIMEOUT''"
definition SERVER_CRASHED :: string where "SERVER_CRASHED = ''SERVER_CRASHED''"
definition TOOL_NOT_FOUND :: string where "TOOL_NOT_FOUND = ''TOOL_NOT_FOUND''"
definition TOOL_EXECUTION_FAILED :: string where
  "TOOL_EXECUTION_FAILED = ''TOOL_EXECUTION_FAILED''"


subsection \<open>The SDK client and the manager's state\<close>

text \<open>What the SDK reports for a tool (\<open>toolsResponse.tools\<close>).\<close>

record sdk_tool =
  sdk_name :: string
  sdk_description :: "string option"
  sdk_inputSchema :: json

text \<open>
  The answers of the SDK. \<open>client_connect\<close> is the creation of the stdio transport and
  \<open>client.connect(transport)\<close> (process spawn and handshake), \<open>None\<close> when it
  resolves; \<open>client_listTools\<close> is \<open>client.listTools()\<close>, whose \<open>tools\<close> field may be
  missing; \<open>client_callTool nm tool a\<close> is \<open>client.callTool\<close> of the client of instance
  \<open>nm\<close>; \<open>client_close\<close> is \<open>client.close()\<close>.
\<close>

record sdk =
  client_connect :: "string \<Rightarrow> McpServerConfig \<Rightarrow> js_error option"
  client_listTools :: "string \<Rightarrow> McpServerConfig \<Rightarrow> js_error + sdk_tool list option"
  client_callTool :: "string \<Rightarrow> string \<Rightarrow> json \<Rightarrow> js_thrown + json list"
  client_close :: "string \<Rightarrow> js_thrown option"

text \<open>
  A JavaScript \<open>Map\<close> keeps its entries in insertion order; \<open>set\<close> on a present key
  replaces the value in place.
\<close>

fun Map_set :: "'k \<Rightarrow> 'v \<Rightarrow> ('k \<times> 'v) list \<Rightarrow> ('k \<times> 'v) list" where
  "Map_set k v [] = [(k, v)]"
| "Map_set k v (p # ps) = (if fst p = k then (k, v) # ps else p # Map_set k v ps)"

definition Map_get :: "('k \<times> 'v) list \<Rightarrow> 'k \<Rightarrow> 'v option" where
  "Map_get m k = map_of m k"

definition Map_values :: "('k \<times> 'v) list \<Rightarrow> 'v list" where
  "Map_values m = map snd m"

text \<open>The two private fields of \<open>McpServerManager\<close>.\<close>

record McpServerManager =
  mgr_servers :: "(string \<times> McpServerInstance) list"
  mgr_tools :: "(string \<times> McpTool) list"

definition new_manager :: McpServerManager where
  "new_manager = \<lparr>mgr_servers = [], mgr_tools = []\<rparr>"

subsection \<open>\<open>connectServer\<close>\<close>

text \<open>The template literal of line 159: the namespaced name of a discovered tool.\<close>

definition namespaced :: "string \<Rightarrow> string \<Rightarrow> string" where
  "namespaced nm tool = nm @ ''__'' @ tool"

definition register_tool :: "string \<Rightarrow> sdk_tool \<Rightarrow> McpTool" where
  "register_tool nm tool =
     \<lparr>name = namespaced nm (sdk_name tool),
      originalName = sdk_name tool,
      description = (case sdk_description tool of None \<Rightarrow> '''' | Some d \<Rightarrow> d),
      inputSchema = sdk_inputSchema tool,
      tool_serverName = nm\<rparr>"

text \<open>The \<open>catch\<close> block of \<open>connectServer\<close>: the error is rethrown.\<close>

definition connect_failed ::
  "McpServerInstance \<Rightarrow> string \<Rightarrow> js_error \<Rightarrow> (js_error \<times> McpServerInstance) + McpServerInstance"
where
  "connect_failed instance nm err =
     Inl (err,
          instance\<lparr>state := FAILED,
                   error := Some \<lparr>code = CONNECT_TIMEOUT, message = js_message err,
                                  serverName = nm, configPath = '''', details = Some err\<rparr>\<rparr>)"

text \<open>
  \<open>connectServer\<close> resolves with the instance (\<open>Inr\<close>) or rejects (\<open>Inl\<close>); a rejection
  is paired with the instance as the \<open>catch\<close> block leaves it, which the source
  drops.
\<close>

definition connectServer ::
  "sdk \<Rightarrow> string \<Rightarrow> McpServerConfig \<Rightarrow> (js_error \<times> McpServerInstance) + McpServerInstance"
where
  "connectServer k nm cfg =
     (let instance = \<lparr>inst_name = nm, config = cfg, state = CREATED, tools = [],
                       source = Global, error = None\<rparr>;
          instance = instance\<lparr>state := CONNECTING\<rparr>
      in case client_connect k nm cfg of
           Some err \<Rightarrow> connect_failed instance nm err
         | None \<Rightarrow>
             (let instance = instance\<lparr>state := INITIALIZED\<rparr>
              in case client_listTools k nm cfg of
                   Inl err \<Rightarrow> connect_failed instance nm err
                 | Inr toolsResponse \<Rightarrow>
                     (let ts = (case toolsResponse of None \<Rightarrow> [] | Some l \<Rightarrow> l);
                          instance = instance\<lparr>tools := map (register_tool nm) ts\<rparr>;
                          instance = instance\<lparr>state := OPERATING\<rparr>
                      in Inr instance)))"

subsection \<open>\<open>getTools\<close>\<close>

text \<open>
  The loop over \<open>this.servers.values()\<close>: an operating server's tools are appended to
  the result and stored in \<open>this.tools\<close> under their names.
\<close>

definition getTools_step ::
  "McpServerInstance \<Rightarrow> McpTool list \<times> McpServerManager \<Rightarrow> McpTool list \<times> McpServerManager"
where
  "getTools_step server acc =
     (if state server = OPERATING
      then (fst acc @ tools server,
            (snd acc)\<lparr>mgr_tools :=
               fold (\<lambda>tool m. Map_set (name tool) tool m) (tools server) (mgr_tools (snd acc))\<rparr>)
      else acc)"

definition getTools :: "McpServerManager \<Rightarrow> McpTool list \<times> McpServerManager" where
  "getTools mgr = fold getTools_step (Map_values (mgr_servers mgr)) ([], mgr)"

subsection \<open>\<open>loadFromConfig\<close>\<close>

text \<open>
  What the callbacks of \<open>loadPromises\<close> share: the manager and the two local arrays.
\<close>

record load_acc =
  acc_mgr :: McpServerManager
  acc_servers :: "McpServerInstance list"
  acc_errors :: "McpServerError list"

text \<open>
  \<open>config.sources[name]\<close>, read as an own property. (For a name that
  \<open>Object.prototype\<close> defines and \<open>sources\<close> does not, JavaScript reads the inherited
  member, which is neither tag; only \<open>source\<close> and \<open>configPath\<close> depend on it.)
\<close>

definition sources_get :: "(string \<times> source_tag) list \<Rightarrow> string \<Rightarrow> source_tag option" where
  "sources_get srcs nm = map_of srcs nm"

text \<open>The \<open>serverError\<close> that the \<open>catch\<close> block of a callback builds.\<close>

definition server_error :: "MergedConfig \<Rightarrow> string \<Rightarrow> js_error \<Rightarrow> McpServerError" where
  "server_error cfgs nm err =
     \<lparr>code = (case js_code err of None \<Rightarrow> SPAWN_FAILED | Some c \<Rightarrow> c),
      message = js_message err,
      serverName = nm,
      configPath = (if sources_get (sources cfgs) nm = Some Project
                    then ''.yolo/mcp.json''
                    else ''~/.config/yolo-cli/mcp.json''),
      details = Some err\<rparr>"

text \<open>
  One callback, from the moment its \<open>connectServer\<close> settles: the \<open>try\<close> branch
  registers the instance, the \<open>catch\<close> branch records a \<open>McpServerError\<close>. Each
  branch runs to completion without an \<open>await\<close>.
\<close>

definition load_entry :: "sdk \<Rightarrow> MergedConfig \<Rightarrow> string \<times> McpServerConfig \<Rightarrow> load_acc \<Rightarrow> load_acc" where
  "load_entry k cfgs entry acc =
     (let nm = fst entry; serverConfig = snd entry;
          src = (case sources_get (sources cfgs) nm of None \<Rightarrow> Global | Some t \<Rightarrow> t)
      in case connectServer k nm serverConfig of
           Inr instance \<Rightarrow>
             (let instance = instance\<lparr>source := src\<rparr>
              in acc\<lparr>acc_servers := acc_servers acc @ [instance],
                     acc_mgr := (acc_mgr acc)\<lparr>mgr_servers :=
                        Map_set nm instance (mgr_servers (acc_mgr acc))\<rparr>\<rparr>)
         | Inl thrown \<Rightarrow>
             (let serverError = server_error cfgs nm (fst thrown)
              in acc\<lparr>acc_errors := acc_errors acc @ [serverError]\<rparr>))"

definition Object_entries :: "'v js_object \<Rightarrow> (string \<times> 'v) list" where
  "Object_entries obj = own obj"

text \<open>
  \<open>loadFromConfig\<close> starts one attempt per entry and awaits them all. The attempts
  settle in an order the event loop chooses: \<open>sched\<close> gives that order, as a
  rearrangement of the entries. After the join, \<open>getTools\<close> counts the tools.
\<close>

definition loadFromConfig ::
  "sdk \<Rightarrow> ((string \<times> McpServerConfig) list \<Rightarrow> (string \<times> McpServerConfig) list)
     \<Rightarrow> MergedConfig \<Rightarrow> McpServerManager \<Rightarrow> LoadResult \<times> McpServerManager"
where
  "loadFromConfig k sched cfgs mgr =
     (let acc = fold (load_entry k cfgs) (sched (Object_entries (mcpServers cfgs)))
                  \<lparr>acc_mgr = mgr, acc_servers = [], acc_errors = []\<rparr>;
          listed = getTools (acc_mgr acc)
      in (\<lparr>servers = acc_servers acc, errors = acc_errors acc,
           toolCount = length (fst listed)\<rparr>,
          snd listed))"

subsection \<open>\<open>callTool\<close>\<close>

definition tool_failure :: "string \<Rightarrow> string \<Rightarrow> string \<Rightarrow> json \<Rightarrow> js_error option \<Rightarrow> ToolResult" where
  "tool_failure c msg tn a d =
     \<lparr>success = False, content = None,
      result_error = Some \<lparr>exec_code = c, exec_message = msg, toolName = tn,
                            arguments = a, exec_details = d\<rparr>,
      metadata = None\<rparr>"

text \<open>Lines 217 to 231: the namespaced name is cut at the first separator.\<close>

definition split_namespaced :: "string \<Rightarrow> (string \<times> string) option" where
  "split_namespaced tn =
     (let separatorIndex = indexOf tn ''__''
      in if separatorIndex = - 1 then None
         else Some (slice tn 0 separatorIndex, slice_from tn (separatorIndex + 2)))"

text \<open>
  The \<open>catch\<close> block of \<open>callTool\<close> builds the failed result from
  \<open>(error as Error).message\<close>. When the rejection is \<open>null\<close> or \<open>undefined\<close> that read
  throws inside the handler, and \<open>callTool\<close> rejects with the \<open>TypeError\<close>.
\<close>

definition call_failed :: "js_thrown \<Rightarrow> string \<Rightarrow> json \<Rightarrow> js_error + ToolResult" where
  "call_failed thrown tn a =
     (case read_message thrown of
        Inl typeError \<Rightarrow> Inl typeError
      | Inr msg \<Rightarrow>
          Inr (tool_failure TOOL_EXECUTION_FAILED msg tn a
                 (case thrown of Thrown err \<Rightarrow> Some err | _ \<Rightarrow> None)))"

text \<open>\<open>callTool\<close> resolves with a \<open>ToolResult\<close> (\<open>Inr\<close>) or rejects (\<open>Inl\<close>).\<close>

definition callTool :: "sdk \<Rightarrow> McpServerManager \<Rightarrow> string \<Rightarrow> json \<Rightarrow> js_error + ToolResult" where
  "callTool k mgr tn a =
     (case split_namespaced tn of
        None \<Rightarrow>
          Inr (tool_failure TOOL_NOT_FOUND
                 (''Invalid tool name format: '' @ tn
                    @ ''. Expected format: servername__toolname'')
                 tn a None)
      | Some parts \<Rightarrow>
          (let srvName = fst parts; originalToolName = snd parts
           in case Map_get (mgr_servers mgr) srvName of
                None \<Rightarrow>
                  Inr (tool_failure TOOL_NOT_FOUND (''Server not found: '' @ srvName) tn a None)
              | Some server \<Rightarrow>
                  if state server \<noteq> OPERATING
                  then Inr (tool_failure SERVER_CRASHED
                              (''Server '' @ [CHR 0x27] @ srvName @ [CHR 0x27]
                                 @ '' is not operating (state: '' @ state_string (state server)
                                 @ '')'')
                              tn a None)
                  else (case client_callTool k (inst_name server) originalToolName a of
                          Inr response \<Rightarrow>
                            Inr \<lparr>success = True, content = Some response, result_error = None,
                                 metadata = Some \<lparr>meta_serverName = srvName,
                                                  meta_toolName = originalToolName\<rparr>\<rparr>
                        | Inl thrown \<Rightarrow> call_failed thrown tn a)))"

subsection \<open>\<open>getServerStatus\<close> and \<open>cleanup\<close>\<close>

definition getServerStatus :: "McpServerManager \<Rightarrow> string \<Rightarrow> McpServerInstance option" where
  "getServerStatus mgr nm = Map_get (mgr_servers mgr) nm"

text \<open>
  One task of \<open>cleanupPromises\<close>. When \<open>client.close()\<close> resolves the state becomes
  \<open>closed\<close>. When it rejects, the \<open>catch\<close> block builds the warning from
  \<open>(error as Error).message\<close>: for an \<open>Error\<close> object the warning is printed and the
  task resolves; for \<open>null\<close> or \<open>undefined\<close> the read throws inside the handler and the
  task rejects with the \<open>TypeError\<close>.
\<close>

datatype close_outcome = Closed | Warned string | Rejected js_error

definition cleanup_one :: "sdk \<Rightarrow> string \<times> McpServerInstance \<Rightarrow> McpServerInstance \<times> close_outcome" where
  "cleanup_one k entry =
     (let nm = fst entry; server = snd entry
      in case client_close k (inst_name server) of
           None \<Rightarrow> (server\<lparr>state := CLOSED\<rparr>, Closed)
         | Some thrown \<Rightarrow>
             (case read_message thrown of
                Inl typeError \<Rightarrow> (server, Rejected typeError)
              | Inr msg \<Rightarrow>
                  (server, Warned (''Warning: Failed to clean up MCP server '' @ [CHR 0x27] @ nm
                                     @ [CHR 0x27] @ '': '' @ msg))))"

record cleanup_result =
  cleaned_mgr :: McpServerManager
  closed_instances :: "McpServerInstance list"
  cleanup_warnings :: "string list"

text \<open>
  \<open>cleanup\<close> awaits every task with \<open>Promise.all\<close>, then clears both maps. When a task
  rejects, \<open>Promise.all\<close> rejects, \<open>cleanup\<close> rejects with it (\<open>Inl\<close>) and neither map
  is cleared: the registry keeps its instances, as the tasks leave them once all have
  settled. The instances stay reachable from whoever holds them. (The model takes the
  first rejection and lists the warnings in the order of the registry; the event loop
  may settle the tasks in another order.)
\<close>

definition cleanup :: "sdk \<Rightarrow> McpServerManager \<Rightarrow> (js_error \<times> McpServerManager) + cleanup_result" where
  "cleanup k mgr =
     (let done = map (cleanup_one k) (mgr_servers mgr);
          rejections = concat (map (\<lambda>d. case snd d of Rejected e \<Rightarrow> [e] | _ \<Rightarrow> []) done)
      in case rejections of
           e # _ \<Rightarrow>
             Inl (e, mgr\<lparr>mgr_servers := zip (map fst (mgr_servers mgr)) (map fst done)\<rparr>)
         | [] \<Rightarrow>
             Inr \<lparr>cleaned_mgr = mgr\<lparr>mgr_servers := [], mgr_tools := []\<rparr>,
                  closed_instances = map fst done,
                  cleanup_warnings =
                    concat (map (\<lambda>d. case snd d of Warned w \<Rightarrow> [w] | _ \<Rightarrow> []) done)\<rparr>)"

section \<open>The configuration loader (\<^verbatim>\<open>src/utils/mcp-config.ts\<close>)\<close>

subsection \<open>\<open>mergeConfigs\<close>\<close>

text \<open>
  The assignment \<open>obj[name] = v\<close> on an object that the literal \<open>{}\<close> created. The
  name \<open>__proto__\<close> is the accessor property of \<open>Object.prototype\<close>: its setter
  replaces the prototype of \<open>obj\<close> when \<open>v\<close> is an object and does nothing when \<open>v\<close> is
  a primitive; no own property is created. Every other name creates an own property or
  overwrites it in place. (The model lists own properties in insertion order and does
  not reorder names that are array indices, as \<open>Object.entries\<close> would.)
\<close>

definition assign_object :: "'v js_object \<Rightarrow> string \<Rightarrow> 'v \<Rightarrow> 'v js_object" where
  "assign_object obj nm v =
     (if nm = ''__proto__'' then obj\<lparr>proto := Some v\<rparr>
      else obj\<lparr>own := Map_set nm v (own obj)\<rparr>)"

definition assign_primitive :: "(string \<times> 'p) list \<Rightarrow> string \<Rightarrow> 'p \<Rightarrow> (string \<times> 'p) list" where
  "assign_primitive props nm v = (if nm = ''__proto__'' then props else Map_set nm v props)"

text \<open>
  The body of both loops of \<open>mergeConfigs\<close> (the \<open>console.info\<close> of the second loop
  is left out).
\<close>

definition merge_entry :: "source_tag \<Rightarrow> string \<times> McpServerConfig \<Rightarrow> MergedConfig \<Rightarrow> MergedConfig" where
  "merge_entry tag entry merged =
     merged\<lparr>mcpServers := assign_object (mcpServers merged) (fst entry) (snd entry),
            sources := assign_primitive (sources merged) (fst entry) tag\<rparr>"

definition mergeConfigs :: "McpConfig option \<Rightarrow> McpConfig option \<Rightarrow> MergedConfig" where
  "mergeConfigs glob proj =
     (let merged = \<lparr>mcpServers = \<lparr>own = [], proto = None\<rparr>, sources = []\<rparr>;
          merged = (case glob of None \<Rightarrow> merged
                    | Some g \<Rightarrow> fold (merge_entry Global) g merged);
          merged = (case proj of None \<Rightarrow> merged
                    | Some p \<Rightarrow> fold (merge_entry Project) p merged)
      in merged)"

subsection \<open>\<open>discoverConfigs\<close>\<close>

text \<open>
  The Node runtime: \<open>os.homedir()\<close>, \<open>process.platform\<close>, \<open>process.cwd()\<close>,
  \<open>path.join\<close>, \<open>fs.readFile\<close> (a missing file rejects with code \<open>ENOENT\<close>) and
  \<open>JSON.parse\<close>, which throws a \<open>SyntaxError\<close> (\<open>Inl\<close> its message; it has no \<open>code\<close>
  property) or returns the parsed value.
\<close>

record node =
  homedir :: string
  platform :: string
  cwd :: string
  path_join :: "string list \<Rightarrow> string"
  readFile :: "string \<Rightarrow> js_error + string"
  JSON_parse :: "string \<Rightarrow> string + json"

definition getGlobalConfigPath :: "node \<Rightarrow> string" where
  "getGlobalConfigPath n =
     (let homeDir = homedir n
      in if platform n = ''win32'' then path_join n [homeDir, ''.yolo-cli'', ''mcp.json'']
         else path_join n [homeDir, ''.config'', ''yolo-cli'', ''mcp.json''])"

definition getProjectConfigPath :: "node \<Rightarrow> string option \<Rightarrow> string" where
  "getProjectConfigPath n workingDir =
     (let dir = (case workingDir of None \<Rightarrow> cwd n | Some d \<Rightarrow> d)
      in path_join n [dir, ''.yolo'', ''mcp.json''])"

text \<open>
  The \<open>catch\<close> block of \<open>loadConfigFile\<close>: the value returned (\<open>null\<close>) and the
  warning, if one is printed (\<open>load_warning\<close> is its template literal).
\<close>

definition load_warning :: "string \<Rightarrow> string \<Rightarrow> string" where
  "load_warning filePath msg =
     ''Warning: Failed to load MCP config from '' @ filePath @ '': '' @ msg"

definition load_failed :: "string \<Rightarrow> js_error \<Rightarrow> json \<times> string option" where
  "load_failed filePath err =
     (if js_code err = Some ''ENOENT'' then (JNull, None)
      else (JNull, Some (load_warning filePath (js_message err))))"

text \<open>
  \<open>loadConfigFile\<close> returns what \<open>JSON.parse\<close> returned, cast to \<open>McpConfig\<close> and
  not inspected.
\<close>

definition loadConfigFile :: "node \<Rightarrow> string \<Rightarrow> json \<times> string option" where
  "loadConfigFile n filePath =
     (case readFile n filePath of
        Inl err \<Rightarrow> load_failed filePath err
      | Inr body \<Rightarrow>
          (case JSON_parse n body of
             Inl msg \<Rightarrow> load_failed filePath \<lparr>js_message = msg, js_code = None\<rparr>
           | Inr parsed \<Rightarrow> (parsed, None)))"

record discovered =
  global :: json
  project :: json
  warnings :: "string list"

text \<open>
  Both files are read concurrently; the warnings are listed global first (the event
  loop may print them in the other order).
\<close>

definition discoverConfigs :: "node \<Rightarrow> string option \<Rightarrow> discovered" where
  "discoverConfigs n workingDir =
     (let globalPath = getGlobalConfigPath n;
          projectPath = getProjectConfigPath n workingDir;
          g = loadConfigFile n globalPath;
          p = loadConfigFile n projectPath
      in \<lparr>global = fst g, project = fst p,
          warnings = (case snd g of None \<Rightarrow> [] | Some w \<Rightarrow> [w])
                     @ (case snd p of None \<Rightarrow> [] | Some w \<Rightarrow> [w])\<rparr>)"

text \<open>
  The structure \<open>McpConfig\<close> declares, read on a JSON value: an object whose field
  \<open>mcpServers\<close> is an object of server configurations, each with a string \<open>command\<close>
  and, where present, optional fields of the declared types.
\<close>

definition is_strings :: "json \<Rightarrow> bool" where
  "is_strings j = (case j of JArr xs \<Rightarrow> list_all (\<lambda>x. case x of JStr _ \<Rightarrow> True | _ \<Rightarrow> False) xs
                   | _ \<Rightarrow> False)"

definition is_string_record :: "json \<Rightarrow> bool" where
  "is_string_record j =
     (case j of JObj ps \<Rightarrow> list_all (\<lambda>p. case snd p of JStr _ \<Rightarrow> True | _ \<Rightarrow> False) ps
      | _ \<Rightarrow> False)"

definition optional_field :: "(string \<times> json) list \<Rightarrow> string \<Rightarrow> (json \<Rightarrow> bool) \<Rightarrow> bool" where
  "optional_field ps f ok = (case map_of ps f of None \<Rightarrow> True | Some v \<Rightarrow> ok v)"

definition is_McpServerConfig :: "json \<Rightarrow> bool" where
  "is_McpServerConfig j =
     (case j of
        JObj ps \<Rightarrow>
          (case map_of ps ''command'' of Some (JStr _) \<Rightarrow> True | _ \<Rightarrow> False)
          \<and> optional_field ps ''args'' is_strings
          \<and> optional_field ps ''env'' is_string_record
          \<and> optional_field ps ''timeout'' (\<lambda>v. case v of JNum _ \<Rightarrow> True | _ \<Rightarrow> False)
          \<and> optional_field ps ''url'' (\<lambda>v. case v of JStr _ \<Rightarrow> True | _ \<Rightarrow> False)
          \<and> optional_field ps ''headers'' is_string_record
      | _ \<Rightarrow> False)"

definition is_McpConfig :: "json \<Rightarrow> bool" where
  "is_McpConfig j =
     (case j of
        JObj ps \<Rightarrow>
          (case map_of ps ''mcpServers'' of
             Some (JObj ss) \<Rightarrow> list_all (\<lambda>p. is_McpServerConfig (snd p)) ss
           | _ \<Rightarrow> False)
      | _ \<Rightarrow> False)"

section \<open>Vocabulary of the properties, and example inputs\<close>

text \<open>
  The attempt for an entry succeeds when the SDK's \<open>connect\<close> and its \<open>listTools\<close>
  both resolve; otherwise \<open>failure_of\<close> is the error the first failing call rejected
  with. \<open>reported_tools\<close> is the list the provider reported.
\<close>

definition connects :: "sdk \<Rightarrow> string \<times> McpServerConfig \<Rightarrow> bool" where
  "connects k e =
     (client_connect k (fst e) (snd e) = None
      \<and> (case client_listTools k (fst e) (snd e) of Inl _ \<Rightarrow> False | Inr _ \<Rightarrow> True))"

definition failure_of :: "sdk \<Rightarrow> string \<Rightarrow> McpServerConfig \<Rightarrow> js_error option" where
  "failure_of k nm cfg =
     (case client_connect k nm cfg of
        Some err \<Rightarrow> Some err
      | None \<Rightarrow> (case client_listTools k nm cfg of Inl err \<Rightarrow> Some err | Inr _ \<Rightarrow> None))"

definition reported_tools :: "sdk \<Rightarrow> string \<Rightarrow> McpServerConfig \<Rightarrow> sdk_tool list" where
  "reported_tools k nm cfg =
     (case client_listTools k nm cfg of Inr (Some l) \<Rightarrow> l | _ \<Rightarrow> [])"

text \<open>
  An SDK for the examples: the command \<open>npx\<close> starts a server with the one tool
  \<open>echo\<close>, any other command is not found; the tool \<open>boom\<close> makes the transport
  fail; the client of \<open>stubborn\<close> refuses to close.
\<close>

definition ex_config :: McpServerConfig where
  "ex_config = \<lparr>command = ''npx'', args = Some [''-y'', ''server''], env = None,
                 timeout = None, url = None, headers = None\<rparr>"

definition bad_config :: McpServerConfig where
  "bad_config = \<lparr>command = ''nonexistent-command-12345'', args = Some [], env = None,
                  timeout = None, url = None, headers = None\<rparr>"

definition enoent :: js_error where
  "enoent = \<lparr>js_message = ''spawn nonexistent-command-12345 ENOENT'',
              js_code = Some ''ENOENT''\<rparr>"

definition ex_sdk :: sdk where
  "ex_sdk =
     \<lparr>client_connect = (\<lambda>nm cfg. if command cfg = ''npx'' then None else Some enoent),
      client_listTools =
        (\<lambda>nm cfg. Inr (Some [\<lparr>sdk_name = ''echo'', sdk_description = None,
                                sdk_inputSchema = JObj []\<rparr>])),
      client_callTool =
        (\<lambda>nm tool a. if tool = ''boom''
                      then Inl (Thrown \<lparr>js_message = ''Connection closed'',
                                         js_code = Some ''-32000''\<rparr>)
                      else Inr [JStr tool]),
      client_close =
        (\<lambda>nm. if nm = ''stubborn''
               then Some (Thrown \<lparr>js_message = ''kill EPERM'', js_code = Some ''EPERM''\<rparr>)
               else None)\<rparr>"

text \<open>
  The same SDK with a client that rejects with \<open>undefined\<close>: the tool \<open>boom\<close> of any
  server, and the \<open>close\<close> of \<open>stubborn\<close>.
\<close>

definition undefined_sdk :: sdk where
  "undefined_sdk =
     ex_sdk\<lparr>client_callTool :=
              (\<lambda>nm tool a. if tool = ''boom'' then Inl ThrownUndefined else Inr [JStr tool]),
            client_close := (\<lambda>nm. if nm = ''stubborn'' then Some ThrownUndefined else None)\<rparr>"

definition ex_merged :: MergedConfig where
  "ex_merged =
     \<lparr>mcpServers = \<lparr>own = [(''bad1'', bad_config), (''good'', ex_config), (''bad2'', bad_config)],
                    proto = None\<rparr>,
      sources = [(''bad1'', Global), (''good'', Project), (''bad2'', Project)]\<rparr>"





text \<open>
  A registry for the examples: two operating servers, one of which will not close,
  and one closed server (a state the registry holds while \<open>cleanup\<close> is under way).
\<close>

definition echo_tool :: sdk_tool where
  "echo_tool = \<lparr>sdk_name = ''echo'', sdk_description = None, sdk_inputSchema = JObj []\<rparr>"

definition ex_server :: "string \<Rightarrow> McpServerState \<Rightarrow> McpServerInstance" where
  "ex_server nm st =
     \<lparr>inst_name = nm, config = ex_config, state = st, tools = [register_tool nm echo_tool],
      source = Global, error = None\<rparr>"

definition ex_mgr :: McpServerManager where
  "ex_mgr =
     \<lparr>mgr_servers = [(''live'', ex_server ''live'' OPERATING),
                     (''stubborn'', ex_server ''stubborn'' OPERATING),
                     (''gone'', ex_server ''gone'' CLOSED)],
      mgr_tools = []\<rparr>"

text \<open>A merged configuration whose one server has the empty name.\<close>

definition empty_name_config :: MergedConfig where
  "empty_name_config =
     \<lparr>mcpServers = \<lparr>own = [('''', ex_config)], proto = None\<rparr>, sources = [('''', Global)]\<rparr>"

text \<open>The flattened tool lists of the servers whose state is \<open>operating\<close>.\<close>

definition operating_tools :: "McpServerInstance list \<Rightarrow> McpTool list" where
  "operating_tools ss = concat (map tools (filter (\<lambda>s. state s = OPERATING) ss))"

text \<open>The last tool of a list that has the given name.\<close>

definition last_named :: "string \<Rightarrow> McpTool list \<Rightarrow> McpTool option" where
  "last_named n ts = find (\<lambda>t. name t = n) (rev ts)"

text \<open>
  A registry whose two operating servers, \<open>a\<close> with the tool \<open>b__c\<close> and \<open>a__b\<close> with
  the tool \<open>c\<close>, give their tools the same namespaced name.
\<close>

definition collide_mgr :: McpServerManager where
  "collide_mgr =
     \<lparr>mgr_servers =
        [(''a'', \<lparr>inst_name = ''a'', config = ex_config, state = OPERATING,
                  tools = [register_tool ''a'' (echo_tool\<lparr>sdk_name := ''b__c''\<rparr>)],
                  source = Global, error = None\<rparr>),
         (''a__b'', \<lparr>inst_name = ''a__b'', config = ex_config, state = OPERATING,
                     tools = [register_tool ''a__b'' (echo_tool\<lparr>sdk_name := ''c''\<rparr>)],
                     source = Global, error = None\<rparr>)],
      mgr_tools = []\<rparr>"

text \<open>
  A runtime for the examples: a valid global file, a project file that holds an array,
  one that is not JSON, one that cannot be read, and no file anywhere else.
\<close>

fun join_slash :: "string list \<Rightarrow> string" where
  "join_slash [] = ''.''"
| "join_slash [p] = p"
| "join_slash (p # q # ps) = p @ ''/'' @ join_slash (q # ps)"

definition eacces :: js_error where
  "eacces = \<lparr>js_message = ''EACCES: permission denied'', js_code = Some ''EACCES''\<rparr>"

definition valid_text :: string where
  "valid_text = ''{'' @ [CHR 0x22] @ ''mcpServers'' @ [CHR 0x22] @ '':{}}''"

definition ex_node :: node where
  "ex_node =
     \<lparr>homedir = ''/home/u'', platform = ''linux'', cwd = ''/work'', path_join = join_slash,
      readFile =
        (\<lambda>p. if p = ''/home/u/.config/yolo-cli/mcp.json'' then Inr valid_text
             else if p = ''/work/.yolo/mcp.json'' then Inr ''[]''
             else if p = ''/broken/.yolo/mcp.json'' then Inr ''invalid json{''
             else if p = ''/locked/.yolo/mcp.json'' then Inl eacces
             else Inl \<lparr>js_message = ''ENOENT: no such file or directory'',
                       js_code = Some ''ENOENT''\<rparr>),
      JSON_parse =
        (\<lambda>s. if s = valid_text then Inr (JObj [(''mcpServers'', JObj [])])
             else if s = ''[]'' then Inr (JArr [])
             else Inl ''Unexpected token i in JSON at position 0'')\<rparr>"

text \<open>The entries of a configuration that may be \<open>null\<close>.\<close>

definition entries_of :: "McpConfig option \<Rightarrow> (string \<times> McpServerConfig) list" where
  "entries_of c = (case c of None \<Rightarrow> [] | Some es \<Rightarrow> es)"

section \<open>Properties\<close>

subsection \<open>Namespacing\<close>

lemma find_from_append_sep:
  "find_from s ''__'' j = None \<Longrightarrow> (s \<noteq> [] \<longrightarrow> last s \<noteq> CHR ''_'')
     \<Longrightarrow> find_from (s @ ''__'' @ t) ''__'' i = Some (i + length s)"
proof (induction s arbitrary: i j)
  case Nil
  show ?case by simp
next
  case (Cons c cs)
  from Cons.prems(1) have nohit: "take 2 (c # cs) \<noteq> ''__''"
    and rest: "find_from cs ''__'' (Suc j) = None"
    by (auto split: if_splits)
  from Cons.prems(2) have lastcs: "cs \<noteq> [] \<longrightarrow> last cs \<noteq> CHR ''_''" by auto
  have nohit': "take 2 ((c # cs) @ ''__'' @ t) \<noteq> ''__''"
  proof (cases cs)
    case Nil
    with Cons.prems(2) show ?thesis by auto
  next
    case (Cons d ds)
    with nohit show ?thesis by auto
  qed
  have "find_from (cs @ ''__'' @ t) ''__'' (Suc i) = Some (Suc i + length cs)"
    using Cons.IH[OF rest lastcs] .
  with nohit' show ?case by simp
qed

lemma split_namespaced_joined:
  assumes "indexOf s ''__'' = - 1" and "s \<noteq> [] \<longrightarrow> last s \<noteq> CHR ''_''"
  shows "split_namespaced (namespaced s t) = Some (s, t)"
proof -
  from assms(1) have "find_from s ''__'' 0 = None"
    by (auto simp: indexOf_def split: option.splits)
  from find_from_append_sep[OF this assms(2), of t 0]
  have "indexOf (namespaced s t) ''__'' = int (length s)"
    by (simp add: indexOf_def namespaced_def)
  moreover have "nat (int (length s) + 2) = length s + 2" by simp
  ultimately show ?thesis
    by (simp add: split_namespaced_def slice_def slice_from_def clamp_index_def
        namespaced_def Let_def)
qed

text \<open>
  C3, as stated, fails: the server name \<open>a_\<close> contains no \<open>__\<close>, but the name of its
  tool \<open>t\<close> is \<open>a___t\<close>, whose first separator starts at position 1; the split
  gives \<open>(a, _t)\<close>.
\<close>

theorem C3_counterexample:
  "indexOf ''a_'' ''__'' = - 1
   \<and> name (register_tool ''a_'' \<lparr>sdk_name = ''t'', sdk_description = None, sdk_inputSchema = JNull\<rparr>)
       = ''a___t''
   \<and> split_namespaced ''a___t'' = Some (''a'', ''_t'')
   \<and> split_namespaced (namespaced ''a_'' ''t'') \<noteq> Some (''a_'', ''t'')"
  by (simp add: indexOf_def split_namespaced_def slice_def slice_from_def clamp_index_def
      namespaced_def register_tool_def Let_def)

text \<open>
  C3, amended: for every server name \<open>s\<close> that contains no \<open>__\<close> and does not end
  with \<open>_\<close>, and every tool name \<open>t\<close>, cutting \<open>s + '__' + t\<close> at its first \<open>__\<close>, as
  \<open>callTool\<close> does, gives back \<open>(s, t)\<close>; the joined form is the name
  \<open>connectServer\<close> gives a discovered tool, so the split of a registered tool's name
  gives its server name and its original name.
\<close>

theorem C3_namespacing_roundtrip:
  assumes "indexOf s ''__'' = - 1" and "s \<noteq> [] \<longrightarrow> last s \<noteq> CHR ''_''"
  shows "split_namespaced (namespaced s t) = Some (s, t)
         \<and> name (register_tool s rt) = namespaced s (sdk_name rt)
         \<and> split_namespaced (name (register_tool s rt))
             = Some (tool_serverName (register_tool s rt), originalName (register_tool s rt))"
  using split_namespaced_joined[OF assms] by (simp add: register_tool_def)

theorem C3_namespacing_roundtrip_witness:
  "indexOf ''github'' ''__'' = - 1
   \<and> last ''github'' \<noteq> CHR ''_''
   \<and> split_namespaced (namespaced ''github'' ''create_issue'') = Some (''github'', ''create_issue'')"
proof -
  have a: "indexOf ''github'' ''__'' = - 1" by (simp add: indexOf_def)
  have b: "''github'' \<noteq> [] \<longrightarrow> last ''github'' \<noteq> CHR ''_''" by simp
  from C3_namespacing_roundtrip[OF a b, of "''create_issue''"] a show ?thesis by simp
qed

text \<open>
  \<open>find_from\<close> finds an occurrence of the pattern, and no occurrence starts before the
  one it finds.
\<close>

lemma find_from_least:
  "take (length pat) (drop m s) = pat \<Longrightarrow> \<exists>k\<le>m. find_from s pat i = Some (i + k)"
proof (induction s arbitrary: m i)
  case Nil
  then show ?case by simp
next
  case (Cons c cs)
  show ?case
  proof (cases "take (length pat) (c # cs) = pat")
    case True
    then show ?thesis by simp
  next
    case False
    with Cons.prems obtain m' where m: "m = Suc m'" by (cases m) auto
    with Cons.prems have "take (length pat) (drop m' cs) = pat" by simp
    from Cons.IH[OF this, of "Suc i"] obtain k where "k \<le> m'" "find_from cs pat (Suc i) = Some (Suc i + k)"
      by auto
    with False m show ?thesis by (intro exI[of _ "Suc k"]) simp
  qed
qed

lemma find_from_sound:
  "find_from s pat i = Some j \<Longrightarrow> \<exists>m. j = i + m \<and> take (length pat) (drop m s) = pat"
proof (induction s arbitrary: i)
  case Nil
  then show ?case by (auto split: if_splits)
next
  case (Cons c cs)
  show ?case
  proof (cases "take (length pat) (c # cs) = pat")
    case True
    with Cons.prems show ?thesis by (intro exI[of _ 0]) simp
  next
    case False
    with Cons.prems have "find_from cs pat (Suc i) = Some j" by simp
    from Cons.IH[OF this] obtain m where "j = Suc i + m" "take (length pat) (drop m cs) = pat"
      by auto
    then show ?thesis by (intro exI[of _ "Suc m"]) simp
  qed
qed

lemma early_separator:
  assumes "indexOf s ''__'' \<noteq> - 1 \<or> (s \<noteq> [] \<and> last s = CHR ''_'')"
  shows "\<exists>k < length s. find_from (s @ ''__'' @ t) ''__'' 0 = Some k"
proof -
  have "\<exists>m < length s. take (length ''__'') (drop m (s @ ''__'' @ t)) = ''__''"
    using assms
  proof
    assume "indexOf s ''__'' \<noteq> - 1"
    then obtain j where "find_from s ''__'' 0 = Some j"
      by (auto simp: indexOf_def split: option.splits)
    from find_from_sound[OF this] have m: "take (length ''__'') (drop j s) = ''__''" by simp
    then have "length (take (length ''__'') (drop j s)) = length ''__''" by (simp only:)
    then have le: "Suc (Suc j) \<le> length s" by (simp split: if_splits)
    with m have "take (length ''__'') (drop j (s @ ''__'' @ t)) = ''__''" by simp
    with le show ?thesis by (intro exI[of _ j]) simp
  next
    assume "s \<noteq> [] \<and> last s = CHR ''_''"
    then obtain u where u: "s = u @ ''_''"
      by (metis append_butlast_last_id)
    then show ?thesis by (intro exI[of _ "length u"]) simp
  qed
  then obtain m where m: "m < length s" "take (length ''__'') (drop m (s @ ''__'' @ t)) = ''__''"
    by blast
  from find_from_least[OF m(2), of 0] m(1) show ?thesis by auto
qed

text \<open>
  The two conditions on the server name are also necessary: when the split of
  \<open>s + '__' + t\<close> gives back \<open>(s, t)\<close>, the name \<open>s\<close> contains no \<open>__\<close> and does not
  end with \<open>_\<close>.
\<close>

lemma namespacing_roundtrip_only_if:
  assumes "split_namespaced (namespaced s t) = Some (s, t)"
  shows "indexOf s ''__'' = - 1 \<and> (s \<noteq> [] \<longrightarrow> last s \<noteq> CHR ''_'')"
proof (rule ccontr)
  assume "\<not> ?thesis"
  then have "indexOf s ''__'' \<noteq> - 1 \<or> (s \<noteq> [] \<and> last s = CHR ''_'')" by auto
  from early_separator[OF this, of t] obtain k where k: "k < length s"
    "find_from (s @ ''__'' @ t) ''__'' 0 = Some k" by auto
  then have "indexOf (namespaced s t) ''__'' = int k"
    by (simp add: indexOf_def namespaced_def)
  with assms k(1) have "take k s = s"
    by (simp add: split_namespaced_def slice_def clamp_index_def namespaced_def Let_def)
  then have "length (take k s) = length s" by simp
  with k(1) show False by simp
qed

subsection \<open>\<open>connectServer\<close> and \<open>loadFromConfig\<close>\<close>

lemmas ex_defs = ex_merged_def ex_sdk_def ex_config_def bad_config_def enoent_def

lemma connectServer_connects:
  "connects k (nm, cfg) \<Longrightarrow>
   connectServer k nm cfg =
     Inr \<lparr>inst_name = nm, config = cfg, state = OPERATING,
          tools = map (register_tool nm) (reported_tools k nm cfg),
          source = Global, error = None\<rparr>"
  by (auto simp: connects_def connectServer_def reported_tools_def Let_def
      split: sum.splits option.splits)

lemma connectServer_fails:
  "failure_of k nm cfg = Some err \<Longrightarrow>
   connectServer k nm cfg =
     Inl (err,
          \<lparr>inst_name = nm, config = cfg, state = FAILED, tools = [], source = Global,
           error = Some \<lparr>code = CONNECT_TIMEOUT, message = js_message err, serverName = nm,
                          configPath = '''', details = Some err\<rparr>\<rparr>)"
  by (auto simp: failure_of_def connectServer_def connect_failed_def Let_def
      split: sum.splits option.splits)

lemma connects_iff: "connects k (nm, cfg) \<longleftrightarrow> failure_of k nm cfg = None"
  by (auto simp: connects_def failure_of_def split: sum.splits option.splits)

lemma load_entry_connects:
  "connects k e \<Longrightarrow>
   acc_errors (load_entry k cfgs e acc) = acc_errors acc
   \<and> (\<exists>i. acc_servers (load_entry k cfgs e acc) = acc_servers acc @ [i] \<and> inst_name i = fst e
          \<and> state i = OPERATING)"
  using connectServer_connects[of k "fst e" "snd e"]
  by (simp add: load_entry_def Let_def)

lemma load_entry_fails:
  "\<not> connects k e \<Longrightarrow>
   acc_servers (load_entry k cfgs e acc) = acc_servers acc
   \<and> acc_mgr (load_entry k cfgs e acc) = acc_mgr acc
   \<and> (\<exists>err. failure_of k (fst e) (snd e) = Some err
        \<and> acc_errors (load_entry k cfgs e acc) = acc_errors acc @ [server_error cfgs (fst e) err])"
proof -
  assume "\<not> connects k e"
  then obtain err where f: "failure_of k (fst e) (snd e) = Some err"
    using connects_iff[of k "fst e" "snd e"] by auto
  from connectServer_fails[OF f] f show ?thesis
    by (simp add: load_entry_def Let_def)
qed

text \<open>
  The names in the two arrays after a run of callbacks: each entry adds its name to
  exactly one of them.
\<close>

lemma fold_load_names:
  "map serverName (acc_errors (fold (load_entry k cfgs) es acc))
     = map serverName (acc_errors acc) @ map fst (filter (\<lambda>e. \<not> connects k e) es)
   \<and> map inst_name (acc_servers (fold (load_entry k cfgs) es acc))
     = map inst_name (acc_servers acc) @ map fst (filter (connects k) es)"
proof (induction es arbitrary: acc)
  case Nil
  show ?case by simp
next
  case (Cons e es)
  show ?case
  proof (cases "connects k e")
    case True
    from load_entry_connects[OF True, of cfgs acc] Cons.IH[of "load_entry k cfgs e acc"] True
    show ?thesis by auto
  next
    case False
    from load_entry_fails[OF False, of cfgs acc] Cons.IH[of "load_entry k cfgs e acc"] False
    show ?thesis by (auto simp: server_error_def)
  qed
qed

lemma loadFromConfig_names:
  "map serverName (errors (fst (loadFromConfig k sched cfgs mgr)))
     = map fst (filter (\<lambda>e. \<not> connects k e) (sched (Object_entries (mcpServers cfgs))))
   \<and> map inst_name (servers (fst (loadFromConfig k sched cfgs mgr)))
     = map fst (filter (connects k) (sched (Object_entries (mcpServers cfgs))))"
  using fold_load_names[of k cfgs "sched (Object_entries (mcpServers cfgs))"
      "\<lparr>acc_mgr = mgr, acc_servers = [], acc_errors = []\<rparr>"]
  by (simp add: loadFromConfig_def Let_def)

text \<open>
  C1: whatever the order of the N entries of the merged configuration and whatever
  the order in which the attempts settle (any rearrangement \<open>sched\<close> of the entries
  in which each attempt settles once), the \<open>LoadResult\<close> has exactly k errors, k the
  number of entries whose attempt fails, and exactly N - k servers; the failed
  entries' names are exactly the names in \<open>errors\<close> and the connecting entries' names
  exactly those in \<open>servers\<close>, so no failure aborts or removes a sibling.
\<close>

theorem C1_load_isolation:
  assumes "mset (sched (Object_entries (mcpServers cfgs))) = mset (Object_entries (mcpServers cfgs))"
  shows "length (errors (fst (loadFromConfig k sched cfgs mgr)))
           = length (filter (\<lambda>e. \<not> connects k e) (Object_entries (mcpServers cfgs)))
       \<and> length (servers (fst (loadFromConfig k sched cfgs mgr)))
           = length (Object_entries (mcpServers cfgs))
             - length (filter (\<lambda>e. \<not> connects k e) (Object_entries (mcpServers cfgs)))
       \<and> mset (map serverName (errors (fst (loadFromConfig k sched cfgs mgr))))
           = mset (map fst (filter (\<lambda>e. \<not> connects k e) (Object_entries (mcpServers cfgs))))
       \<and> mset (map inst_name (servers (fst (loadFromConfig k sched cfgs mgr))))
           = mset (map fst (filter (connects k) (Object_entries (mcpServers cfgs))))"
proof -
  let ?es = "Object_entries (mcpServers cfgs)"
  let ?r = "fst (loadFromConfig k sched cfgs mgr)"
  have perm: "mset (map fst (filter P (sched ?es))) = mset (map fst (filter P ?es))" for P
    using assms by (simp only: mset_map mset_filter)
  have ne: "map serverName (errors ?r) = map fst (filter (\<lambda>e. \<not> connects k e) (sched ?es))"
    and ns: "map inst_name (servers ?r) = map fst (filter (connects k) (sched ?es))"
    using loadFromConfig_names[of k sched cfgs mgr] by simp_all
  have e: "mset (map serverName (errors ?r)) = mset (map fst (filter (\<lambda>e. \<not> connects k e) ?es))"
    by (simp only: ne perm)
  have s: "mset (map inst_name (servers ?r)) = mset (map fst (filter (connects k) ?es))"
    by (simp only: ns perm)
  have "size (mset (map serverName (errors ?r)))
          = size (mset (map fst (filter (\<lambda>e. \<not> connects k e) ?es)))"
    by (simp only: e)
  then have le: "length (errors ?r) = length (filter (\<lambda>e. \<not> connects k e) ?es)"
    by (simp only: size_mset length_map)
  have "size (mset (map inst_name (servers ?r))) = size (mset (map fst (filter (connects k) ?es)))"
    by (simp only: s)
  then have ls: "length (servers ?r) = length (filter (connects k) ?es)"
    by (simp only: size_mset length_map)
  have "length (filter (connects k) ?es) + length (filter (\<lambda>e. \<not> connects k e) ?es) = length ?es"
    by (rule sum_length_filter_compl)
  with ls have ls': "length (servers ?r) = length ?es - length (filter (\<lambda>e. \<not> connects k e) ?es)"
    by simp
  from le ls' e s show ?thesis by (intro conjI)
qed

text \<open>
  Three entries, the first and the last with a command that does not exist, settling
  in reverse order: two errors and one server.
\<close>

theorem C1_load_isolation_witness:
  "mset (rev (Object_entries (mcpServers ex_merged))) = mset (Object_entries (mcpServers ex_merged))
   \<and> length (Object_entries (mcpServers ex_merged)) = 3
   \<and> length (errors (fst (loadFromConfig ex_sdk rev ex_merged new_manager))) = 2
   \<and> length (servers (fst (loadFromConfig ex_sdk rev ex_merged new_manager))) = 1"
proof -
  have p: "mset (rev (Object_entries (mcpServers ex_merged))) = mset (Object_entries (mcpServers ex_merged))"
    by simp
  have f: "filter (\<lambda>e. \<not> connects ex_sdk e) (Object_entries (mcpServers ex_merged))
            = [(''bad1'', bad_config), (''bad2'', bad_config)]"
    by (simp add: connects_def ex_defs Object_entries_def)
  have n: "length (Object_entries (mcpServers ex_merged)) = 3"
    by (simp add: ex_merged_def Object_entries_def)
  from C1_load_isolation[where sched = rev and cfgs = ex_merged and k = ex_sdk
      and mgr = new_manager, OF p]
  show ?thesis
    by (simp only: f n p) simp
qed

text \<open>
  C7: after a connect attempt either the connection is \<open>operating\<close> and its tools
  are all the tools the provider reported, each namespaced, or the attempt failed,
  the state is \<open>failed\<close> and the tools list is empty; a connection that holds tools
  is operating.
\<close>

theorem C7_no_partial_registration:
  "(case connectServer k nm cfg of
      Inr inst \<Rightarrow>
        state inst = OPERATING
        \<and> tools inst = map (register_tool nm) (reported_tools k nm cfg)
        \<and> map name (tools inst) = map (\<lambda>t. namespaced nm (sdk_name t)) (reported_tools k nm cfg)
        \<and> connects k (nm, cfg)
    | Inl thrown \<Rightarrow>
        state (snd thrown) = FAILED \<and> tools (snd thrown) = [] \<and> \<not> connects k (nm, cfg))"
proof (cases "connects k (nm, cfg)")
  case True
  from connectServer_connects[OF True] True show ?thesis
    by (simp add: register_tool_def)
next
  case False
  then obtain err where "failure_of k nm cfg = Some err"
    using connects_iff[of k nm cfg] by auto
  from connectServer_fails[OF this] False show ?thesis by simp
qed

theorem C7_no_partial_registration_witness:
  "(\<exists>inst. connectServer ex_sdk ''good'' ex_config = Inr inst \<and> state inst = OPERATING
       \<and> map name (tools inst) = [''good__echo''])
   \<and> (\<exists>thrown. connectServer ex_sdk ''bad1'' bad_config = Inl thrown \<and> state (snd thrown) = FAILED
       \<and> tools (snd thrown) = [])"
proof -
  have a: "connects ex_sdk (''good'', ex_config)" by (simp add: connects_def ex_defs)
  have b: "\<not> connects ex_sdk (''bad1'', bad_config)" by (simp add: connects_def ex_defs)
  have r: "reported_tools ex_sdk ''good'' ex_config
            = [\<lparr>sdk_name = ''echo'', sdk_description = None, sdk_inputSchema = JObj []\<rparr>]"
    by (simp add: reported_tools_def ex_sdk_def)
  from C7_no_partial_registration[of ex_sdk "''good''" ex_config] a r
  have 1: "\<exists>inst. connectServer ex_sdk ''good'' ex_config = Inr inst \<and> state inst = OPERATING
       \<and> map name (tools inst) = [''good__echo'']"
    by (cases "connectServer ex_sdk ''good'' ex_config") (simp_all add: namespaced_def register_tool_def)
  from C7_no_partial_registration[of ex_sdk "''bad1''" bad_config] b
  have 2: "\<exists>thrown. connectServer ex_sdk ''bad1'' bad_config = Inl thrown \<and> state (snd thrown) = FAILED
       \<and> tools (snd thrown) = []"
    by (cases "connectServer ex_sdk ''bad1'' bad_config") simp_all
  from 1 2 show ?thesis by (intro conjI)
qed

subsection \<open>Failure of a connect attempt\<close>






subsection \<open>\<open>cleanup\<close>\<close>

lemma getTools_empty: "mgr_servers m = [] \<Longrightarrow> getTools m = ([], m)"
  by (simp add: getTools_def Map_values_def)

lemma cleanup_one_not_rejected:
  assumes "client_close k (inst_name (snd e)) \<noteq> Some ThrownNull"
    and "client_close k (inst_name (snd e)) \<noteq> Some ThrownUndefined"
  shows "cleanup_one k e
           = (case client_close k (inst_name (snd e)) of
                None \<Rightarrow> ((snd e)\<lparr>state := CLOSED\<rparr>, Closed)
              | Some thrown \<Rightarrow>
                  (snd e, Warned (''Warning: Failed to clean up MCP server '' @ [CHR 0x27] @ fst e
                                    @ [CHR 0x27] @ '': ''
                                    @ (case thrown of Thrown err \<Rightarrow> js_message err | _ \<Rightarrow> ''''))))"
  using assms
  by (auto simp: cleanup_one_def read_message_def Let_def split: option.splits js_thrown.splits)

lemma no_rejections:
  assumes "\<forall>e \<in> set es. client_close k (inst_name (snd e)) \<noteq> Some ThrownNull
                        \<and> client_close k (inst_name (snd e)) \<noteq> Some ThrownUndefined"
  shows "concat (map (\<lambda>d. case snd d of Rejected e \<Rightarrow> [e] | _ \<Rightarrow> []) (map (cleanup_one k) es)) = []"
  using assms
proof (induction es)
  case Nil
  show ?case by simp
next
  case (Cons e es)
  then have "client_close k (inst_name (snd e)) \<noteq> Some ThrownNull"
    and "client_close k (inst_name (snd e)) \<noteq> Some ThrownUndefined" by simp_all
  from cleanup_one_not_rejected[OF this] Cons show ?case
    by (simp split: option.splits)
qed

text \<open>
  As long as no \<open>close\<close> rejects with \<open>null\<close> or \<open>undefined\<close>, \<open>cleanup\<close> resolves: a
  rejected \<open>close\<close> only leaves its own connection unclosed, every other connection is
  closed, and both maps are cleared, so \<open>getTools\<close> returns the empty list. On the
  empty registry, and so when run a second time, it has nothing to close.
\<close>

lemma cleanup_resolves:
  assumes "\<forall>e \<in> set (mgr_servers mgr). client_close k (inst_name (snd e)) \<noteq> Some ThrownNull
                        \<and> client_close k (inst_name (snd e)) \<noteq> Some ThrownUndefined"
  shows "\<exists>r. cleanup k mgr = Inr r
            \<and> cleaned_mgr r = mgr\<lparr>mgr_servers := [], mgr_tools := []\<rparr>
            \<and> fst (getTools (cleaned_mgr r)) = []
            \<and> closed_instances r
                = map (\<lambda>e. if client_close k (inst_name (snd e)) = None
                            then (snd e)\<lparr>state := CLOSED\<rparr> else snd e) (mgr_servers mgr)"
proof -
  have ci: "map fst (map (cleanup_one k) es)
              = map (\<lambda>e. if client_close k (inst_name (snd e)) = None
                          then (snd e)\<lparr>state := CLOSED\<rparr> else snd e) es" for es
    by (induction es)
      (auto simp: cleanup_one_def read_message_def Let_def split: option.splits js_thrown.splits)
  have r: "cleanup k mgr
             = Inr \<lparr>cleaned_mgr = mgr\<lparr>mgr_servers := [], mgr_tools := []\<rparr>,
                    closed_instances = map fst (map (cleanup_one k) (mgr_servers mgr)),
                    cleanup_warnings =
                      concat (map (\<lambda>d. case snd d of Warned w \<Rightarrow> [w] | _ \<Rightarrow> [])
                                (map (cleanup_one k) (mgr_servers mgr)))\<rparr>"
    unfolding cleanup_def Let_def no_rejections[OF assms] by simp
  have g: "fst (getTools (mgr\<lparr>mgr_servers := [], mgr_tools := []\<rparr>)) = []"
    by (simp add: getTools_empty)
  show ?thesis
    unfolding r ci by (simp add: g)
qed

lemma cleanup_empty_registry:
  "mgr_servers mgr = [] \<Longrightarrow>
   cleanup k mgr = Inr \<lparr>cleaned_mgr = mgr\<lparr>mgr_servers := [], mgr_tools := []\<rparr>,
                        closed_instances = [], cleanup_warnings = []\<rparr>"
  by (simp add: cleanup_def)

text \<open>
  C8 fails on the code when a client's \<open>close\<close> rejects with \<open>undefined\<close> (or \<open>null\<close>).
  The registry holds three servers and the client of \<open>stubborn\<close> rejects with
  \<open>undefined\<close>: the \<open>catch\<close> block throws while it builds the warning, \<open>cleanup\<close>
  rejects with that \<open>TypeError\<close>, neither map is cleared, and \<open>getTools\<close> afterwards
  still returns the tool of \<open>stubborn\<close>.
\<close>

theorem C8_cleanup_rejects:
  "client_close undefined_sdk ''stubborn'' = Some ThrownUndefined
   \<and> cleanup undefined_sdk ex_mgr
       = Inl (type_error ''undefined'',
              \<lparr>mgr_servers = [(''live'', ex_server ''live'' CLOSED),
                              (''stubborn'', ex_server ''stubborn'' OPERATING),
                              (''gone'', ex_server ''gone'' CLOSED)],
               mgr_tools = []\<rparr>)
   \<and> fst (getTools \<lparr>mgr_servers = [(''live'', ex_server ''live'' CLOSED),
                                    (''stubborn'', ex_server ''stubborn'' OPERATING),
                                    (''gone'', ex_server ''gone'' CLOSED)],
                     mgr_tools = []\<rparr>)
       = [register_tool ''stubborn'' echo_tool]"
  by (simp add: cleanup_def cleanup_one_def read_message_def undefined_sdk_def ex_sdk_def
      ex_mgr_def ex_server_def Let_def getTools_def getTools_step_def Map_values_def)

text \<open>With a client that rejects with an \<open>Error\<close> object the same registry is cleared.\<close>

lemma cleanup_example:
  "cleanup ex_sdk ex_mgr
     = Inr \<lparr>cleaned_mgr = new_manager,
            closed_instances = [ex_server ''live'' CLOSED, ex_server ''stubborn'' OPERATING,
                                ex_server ''gone'' CLOSED],
            cleanup_warnings = [''Warning: Failed to clean up MCP server '' @ [CHR 0x27]
                                  @ ''stubborn'' @ [CHR 0x27] @ '': kill EPERM'']\<rparr>"
  by (simp add: cleanup_def cleanup_one_def read_message_def ex_sdk_def ex_mgr_def
      ex_server_def Let_def new_manager_def)

subsection \<open>\<open>callTool\<close>\<close>

text \<open>
  The dispatch of \<open>callTool\<close>. A name without \<open>__\<close> fails with \<open>TOOL_NOT_FOUND\<close>
  (invalid tool name format), and the result is the same for every registry and every
  SDK: no connection is consulted. A prefix that matches no registered connection
  fails with \<open>TOOL_NOT_FOUND\<close> (server not found). A matched connection that is not
  operating fails with \<open>SERVER_CRASHED\<close>, the message naming its state. A transport
  call that rejects with an \<open>Error\<close> object comes back as a \<open>TOOL_EXECUTION_FAILED\<close>
  result.
\<close>

lemma callTool_dispatch:
  "(indexOf tn ''__'' = - 1 \<longrightarrow>
      callTool k mgr tn a =
        Inr \<lparr>success = False, content = None,
             result_error = Some \<lparr>exec_code = TOOL_NOT_FOUND,
                exec_message = ''Invalid tool name format: '' @ tn
                                 @ ''. Expected format: servername__toolname'',
                toolName = tn, arguments = a, exec_details = None\<rparr>,
             metadata = None\<rparr>
      \<and> callTool k mgr tn a = callTool k2 mgr2 tn a)
   \<and> (indexOf tn ''__'' \<noteq> - 1
        \<and> Map_get (mgr_servers mgr) (slice tn 0 (indexOf tn ''__'')) = None \<longrightarrow>
      callTool k mgr tn a =
        Inr \<lparr>success = False, content = None,
             result_error = Some \<lparr>exec_code = TOOL_NOT_FOUND,
                exec_message = ''Server not found: '' @ slice tn 0 (indexOf tn ''__''),
                toolName = tn, arguments = a, exec_details = None\<rparr>,
             metadata = None\<rparr>)
   \<and> (indexOf tn ''__'' \<noteq> - 1
        \<and> Map_get (mgr_servers mgr) (slice tn 0 (indexOf tn ''__'')) = Some server
        \<and> state server \<noteq> OPERATING \<longrightarrow>
      callTool k mgr tn a =
        Inr \<lparr>success = False, content = None,
             result_error = Some \<lparr>exec_code = SERVER_CRASHED,
                exec_message = ''Server '' @ [CHR 0x27] @ slice tn 0 (indexOf tn ''__'')
                                 @ [CHR 0x27] @ '' is not operating (state: ''
                                 @ state_string (state server) @ '')'',
                toolName = tn, arguments = a, exec_details = None\<rparr>,
             metadata = None\<rparr>)
   \<and> (indexOf tn ''__'' \<noteq> - 1
        \<and> Map_get (mgr_servers mgr) (slice tn 0 (indexOf tn ''__'')) = Some server
        \<and> state server = OPERATING
        \<and> client_callTool k (inst_name server) (slice_from tn (indexOf tn ''__'' + 2)) a
            = Inl (Thrown err)
        \<longrightarrow>
      callTool k mgr tn a =
        Inr \<lparr>success = False, content = None,
             result_error = Some \<lparr>exec_code = TOOL_EXECUTION_FAILED,
                exec_message = js_message err,
                toolName = tn, arguments = a, exec_details = Some err\<rparr>,
             metadata = None\<rparr>)"
  by (simp add: callTool_def split_namespaced_def tool_failure_def call_failed_def
      read_message_def Let_def)

lemmas call_defs = callTool_def split_namespaced_def indexOf_def slice_def slice_from_def
  clamp_index_def Map_get_def tool_failure_def call_failed_def read_message_def Let_def

text \<open>The four failures on the example registry, with their messages.\<close>

lemma callTool_dispatch_examples:
  "callTool ex_sdk ex_mgr ''invalid-format'' JNull
     = Inr (tool_failure TOOL_NOT_FOUND
              ''Invalid tool name format: invalid-format. Expected format: servername__toolname''
              ''invalid-format'' JNull None)
   \<and> callTool ex_sdk ex_mgr ''ghost__tool'' JNull
     = Inr (tool_failure TOOL_NOT_FOUND ''Server not found: ghost'' ''ghost__tool'' JNull None)
   \<and> callTool ex_sdk ex_mgr ''gone__echo'' JNull
     = Inr (tool_failure SERVER_CRASHED
              (''Server '' @ [CHR 0x27] @ ''gone'' @ [CHR 0x27]
                 @ '' is not operating (state: closed)'')
              ''gone__echo'' JNull None)
   \<and> callTool ex_sdk ex_mgr ''live__boom'' JNull
     = Inr (tool_failure TOOL_EXECUTION_FAILED ''Connection closed'' ''live__boom'' JNull
              (Some \<lparr>js_message = ''Connection closed'', js_code = Some ''-32000''\<rparr>))"
  by (simp add: call_defs ex_mgr_def ex_server_def ex_sdk_def)

text \<open>
  C4 fails on the code when the transport call rejects with \<open>undefined\<close> (or \<open>null\<close>).
  The server \<open>live\<close> is registered and operating and its client rejects the call of
  \<open>boom\<close> with \<open>undefined\<close>: the \<open>catch\<close> block throws while it reads the message,
  and \<open>callTool\<close> rejects with that \<open>TypeError\<close> instead of returning a
  \<open>TOOL_EXECUTION_FAILED\<close> result.
\<close>

theorem C4_callTool_rejects:
  "Map_get (mgr_servers ex_mgr) ''live'' = Some (ex_server ''live'' OPERATING)
   \<and> state (ex_server ''live'' OPERATING) = OPERATING
   \<and> client_callTool undefined_sdk ''live'' ''boom'' JNull = Inl ThrownUndefined
   \<and> callTool undefined_sdk ex_mgr ''live__boom'' JNull = Inl (type_error ''undefined'')"
  by (simp add: call_defs ex_mgr_def ex_server_def undefined_sdk_def ex_sdk_def)

text \<open>
  C10, amended: when no connection is registered under the empty name, for every
  arguments object and every tool name that begins with \<open>__\<close>, \<open>callTool\<close> passes the
  format check (the separator is found at position 0, the server name is empty) and
  returns the \<open>TOOL_NOT_FOUND\<close> failure "Server not found" for the empty name, not
  the "invalid tool name format" failure.
\<close>

theorem C10_leading_separator:
  assumes "Map_get (mgr_servers mgr) '''' = None"
  shows "indexOf (''__'' @ t) ''__'' = 0
       \<and> split_namespaced (''__'' @ t) = Some ('''', t)
       \<and> callTool k mgr (''__'' @ t) a =
           Inr \<lparr>success = False, content = None,
                result_error = Some \<lparr>exec_code = TOOL_NOT_FOUND,
                   exec_message = ''Server not found: '' @ '''',
                   toolName = ''__'' @ t, arguments = a, exec_details = None\<rparr>,
                metadata = None\<rparr>"
proof -
  have i: "indexOf (''__'' @ t) ''__'' = 0" by (simp add: indexOf_def)
  have sp: "split_namespaced (''__'' @ t) = Some ('''', t)"
    using i by (simp add: split_namespaced_def slice_def slice_from_def clamp_index_def)
  from assms have "callTool k mgr (''__'' @ t) a =
           Inr \<lparr>success = False, content = None,
                result_error = Some \<lparr>exec_code = TOOL_NOT_FOUND,
                   exec_message = ''Server not found: '' @ '''',
                   toolName = ''__'' @ t, arguments = a, exec_details = None\<rparr>,
                metadata = None\<rparr>"
    by (simp only: callTool_def sp) (simp add: tool_failure_def)
  with i sp show ?thesis by (intro conjI)
qed

theorem C10_leading_separator_witness:
  "Map_get (mgr_servers ex_mgr) '''' = None
   \<and> callTool ex_sdk ex_mgr ''__echo'' JNull
       = Inr (tool_failure TOOL_NOT_FOUND ''Server not found: '' ''__echo'' JNull None)"
proof -
  have n: "Map_get (mgr_servers ex_mgr) '''' = None" by (simp add: Map_get_def ex_mgr_def)
  from C10_leading_separator[OF n, of "''echo''" ex_sdk JNull] n show ?thesis
    by (simp add: tool_failure_def)
qed

text \<open>
  C10, as stated, fails: a configuration may name a server with the empty string;
  once it is loaded, \<open>__echo\<close> is routed to that server and succeeds.
\<close>

theorem C10_counterexample:
  "Map_get (mgr_servers (snd (loadFromConfig ex_sdk id empty_name_config new_manager))) ''''
     = Some \<lparr>inst_name = '''', config = ex_config, state = OPERATING,
             tools = [register_tool '''' echo_tool], source = Global, error = None\<rparr>
   \<and> callTool ex_sdk (snd (loadFromConfig ex_sdk id empty_name_config new_manager)) ''__echo'' JNull
     = Inr \<lparr>success = True, content = Some [JStr ''echo''], result_error = None,
            metadata = Some \<lparr>meta_serverName = '''', meta_toolName = ''echo''\<rparr>\<rparr>"
proof -
  have m: "snd (loadFromConfig ex_sdk id empty_name_config new_manager)
            = \<lparr>mgr_servers = [('''', \<lparr>inst_name = '''', config = ex_config, state = OPERATING,
                 tools = [register_tool '''' echo_tool], source = Global, error = None\<rparr>)],
               mgr_tools = [(''__echo'', register_tool '''' echo_tool)]\<rparr>"
    by (simp add: loadFromConfig_def empty_name_config_def Object_entries_def load_entry_def
        connectServer_def ex_sdk_def ex_config_def Let_def sources_get_def new_manager_def
        getTools_def getTools_step_def Map_values_def echo_tool_def register_tool_def
        namespaced_def)
  show ?thesis
    by (simp only: m) (simp add: call_defs ex_sdk_def)
qed

subsection \<open>\<open>getTools\<close> and the tool index\<close>

lemma map_of_Map_set: "map_of (Map_set k v m) = (map_of m)(k \<mapsto> v)"
  by (induction m) (auto simp: fun_eq_iff)

lemma index_after_fold:
  "map_of (fold (\<lambda>tool m. Map_set (name tool) tool m) ts idx) n
     = (case find (\<lambda>t. name t = n) (rev ts) of Some t \<Rightarrow> Some t | None \<Rightarrow> map_of idx n)"
proof (induction ts rule: rev_induct)
  case Nil
  show ?case by simp
next
  case (snoc x xs)
  then show ?case by (simp add: map_of_Map_set)
qed

lemma fold_getTools_step:
  "fold getTools_step ss (ts, m)
     = (ts @ operating_tools ss,
        m\<lparr>mgr_tools := fold (\<lambda>tool m. Map_set (name tool) tool m) (operating_tools ss) (mgr_tools m)\<rparr>)"
proof (induction ss arbitrary: ts m)
  case Nil
  show ?case by (simp add: operating_tools_def)
next
  case (Cons s ss)
  show ?case
  proof (cases "state s = OPERATING")
    case True
    then have step: "getTools_step s (ts, m)
        = (ts @ tools s,
           m\<lparr>mgr_tools := fold (\<lambda>tool m. Map_set (name tool) tool m) (tools s) (mgr_tools m)\<rparr>)"
      by (simp add: getTools_step_def)
    have ot: "operating_tools (s # ss) = tools s @ operating_tools ss"
      using True by (simp add: operating_tools_def)
    show ?thesis
      by (simp only: fold_simps step Cons.IH ot) simp
  next
    case False
    then have step: "getTools_step s (ts, m) = (ts, m)"
      by (simp add: getTools_step_def)
    have ot: "operating_tools (s # ss) = operating_tools ss"
      using False by (simp add: operating_tools_def)
    show ?thesis
      by (simp only: fold_simps step Cons.IH ot)
  qed
qed

lemma getTools_eq:
  "getTools mgr
     = (operating_tools (Map_values (mgr_servers mgr)),
        mgr\<lparr>mgr_tools := fold (\<lambda>tool m. Map_set (name tool) tool m)
                             (operating_tools (Map_values (mgr_servers mgr))) (mgr_tools mgr)\<rparr>)"
  using fold_getTools_step[of "Map_values (mgr_servers mgr)" "[]" mgr]
  by (simp add: getTools_def)

lemma callTool_ignores_index: "callTool k (mgr\<lparr>mgr_tools := idx\<rparr>) tn a = callTool k mgr tn a"
  by (simp add: callTool_def Let_def split: option.splits)

text \<open>
  \<open>last_named\<close> picks the last tool of that name: nothing after it has the name.
\<close>

lemma last_named_iff:
  "last_named n ts = Some u
     \<longleftrightarrow> (\<exists>xs ys. ts = xs @ u # ys \<and> name u = n \<and> (\<forall>y \<in> set ys. name y \<noteq> n))"
proof (induction ts rule: rev_induct)
  case Nil
  show ?case by (simp add: last_named_def)
next
  case (snoc x ts)
  show ?case
  proof (cases "name x = n")
    case True
    have "(\<exists>xs ys. ts @ [x] = xs @ u # ys \<and> name u = n \<and> (\<forall>y \<in> set ys. name y \<noteq> n))
            \<longleftrightarrow> x = u"
    proof
      assume "\<exists>xs ys. ts @ [x] = xs @ u # ys \<and> name u = n \<and> (\<forall>y \<in> set ys. name y \<noteq> n)"
      then obtain xs ys where d: "ts @ [x] = xs @ u # ys" "\<forall>y \<in> set ys. name y \<noteq> n" by blast
      show "x = u"
      proof (cases ys rule: rev_cases)
        case Nil
        with d(1) show ?thesis by simp
      next
        case (snoc zs z)
        with d(1) have "x = z" by simp
        with snoc d(2) True show ?thesis by simp
      qed
    next
      assume "x = u"
      with True show "\<exists>xs ys. ts @ [x] = xs @ u # ys \<and> name u = n \<and> (\<forall>y \<in> set ys. name y \<noteq> n)"
        by (intro exI[of _ ts] exI[of _ "[]"]) simp
    qed
    with True show ?thesis by (auto simp: last_named_def)
  next
    case False
    have "(\<exists>xs ys. ts @ [x] = xs @ u # ys \<and> name u = n \<and> (\<forall>y \<in> set ys. name y \<noteq> n))
            \<longleftrightarrow> (\<exists>xs ys. ts = xs @ u # ys \<and> name u = n \<and> (\<forall>y \<in> set ys. name y \<noteq> n))"
    proof
      assume "\<exists>xs ys. ts @ [x] = xs @ u # ys \<and> name u = n \<and> (\<forall>y \<in> set ys. name y \<noteq> n)"
      then obtain xs ys where d: "ts @ [x] = xs @ u # ys" "name u = n"
        "\<forall>y \<in> set ys. name y \<noteq> n" by blast
      show "\<exists>xs ys. ts = xs @ u # ys \<and> name u = n \<and> (\<forall>y \<in> set ys. name y \<noteq> n)"
      proof (cases ys rule: rev_cases)
        case Nil
        with d(1) have "x = u" by simp
        with d(2) False show ?thesis by simp
      next
        case (snoc zs z)
        with d(1) have "ts = xs @ u # zs" by simp
        moreover from snoc d(3) have "\<forall>y \<in> set zs. name y \<noteq> n" by simp
        ultimately show ?thesis using d(2) by blast
      qed
    next
      assume "\<exists>xs ys. ts = xs @ u # ys \<and> name u = n \<and> (\<forall>y \<in> set ys. name y \<noteq> n)"
      then obtain xs ys where "ts = xs @ u # ys" "name u = n" "\<forall>y \<in> set ys. name y \<noteq> n"
        by blast
      with False show "\<exists>xs ys. ts @ [x] = xs @ u # ys \<and> name u = n \<and> (\<forall>y \<in> set ys. name y \<noteq> n)"
        by (intro exI[of _ xs] exI[of _ "ys @ [x]"]) simp
    qed
    with False snoc.IH show ?thesis by (simp add: last_named_def)
  qed
qed

lemma last_named_None: "last_named n ts = None \<longleftrightarrow> n \<notin> name ` set ts"
  by (auto simp: last_named_def find_None_iff)

lemma last_named_distinct:
  "distinct (map name ts) \<Longrightarrow> t \<in> set ts \<Longrightarrow> last_named (name t) ts = Some t"
proof (induction ts rule: rev_induct)
  case Nil
  then show ?case by simp
next
  case (snoc x ts)
  then show ?case by (auto simp: last_named_def)
qed

text \<open>
  C5, amended: for every state of the registry, \<open>getTools\<close> returns exactly the
  flattened tool lists of the connections whose state is \<open>operating\<close> (connections
  in any other state contribute nothing: removing them from the registry does not
  change the result), and leaves the registry as it is. As a side effect it refreshes
  the manager's namespaced-name to tool index: each name of a returned tool is mapped
  to the last returned tool with that name (so every returned tool is stored under its
  own name when the returned names are distinct, and of several returned tools with
  one name the last overwrites the others), and the entries under every other name
  stay as they were. \<open>callTool\<close> does not read that index: its result is the same
  whatever the index holds, since it routes by the server-name prefix through the
  connection registry.
\<close>

theorem C5_getTools:
  "fst (getTools mgr) = operating_tools (Map_values (mgr_servers mgr))
   \<and> fst (getTools mgr)
       = fst (getTools (mgr\<lparr>mgr_servers := filter (\<lambda>e. state (snd e) = OPERATING) (mgr_servers mgr)\<rparr>))
   \<and> mgr_servers (snd (getTools mgr)) = mgr_servers mgr
   \<and> Map_get (mgr_tools (snd (getTools mgr))) n
       = (case last_named n (fst (getTools mgr)) of
            Some t \<Rightarrow> Some t
          | None \<Rightarrow> Map_get (mgr_tools mgr) n)
   \<and> (distinct (map name (fst (getTools mgr))) \<longrightarrow>
        (\<forall>t \<in> set (fst (getTools mgr)).
           Map_get (mgr_tools (snd (getTools mgr))) (name t) = Some t))
   \<and> (n \<notin> name ` set (fst (getTools mgr)) \<longrightarrow>
         Map_get (mgr_tools (snd (getTools mgr))) n = Map_get (mgr_tools mgr) n)
   \<and> callTool k (snd (getTools mgr)) tn a = callTool k mgr tn a
   \<and> callTool k (mgr\<lparr>mgr_tools := idx\<rparr>) tn a = callTool k mgr tn a"
proof -
  let ?ts = "operating_tools (Map_values (mgr_servers mgr))"
  have a: "fst (getTools mgr) = ?ts" by (simp add: getTools_eq)
  have "operating_tools (Map_values (filter (\<lambda>e. state (snd e) = OPERATING) xs))
          = operating_tools (Map_values xs)" for xs :: "(string \<times> McpServerInstance) list"
    by (induction xs) (auto simp: operating_tools_def Map_values_def)
  then have b: "fst (getTools mgr)
       = fst (getTools (mgr\<lparr>mgr_servers := filter (\<lambda>e. state (snd e) = OPERATING) (mgr_servers mgr)\<rparr>))"
    by (simp add: getTools_eq)
  have c: "mgr_servers (snd (getTools mgr)) = mgr_servers mgr" by (simp add: getTools_eq)
  have idx: "Map_get (mgr_tools (snd (getTools mgr))) m
       = (case last_named m (fst (getTools mgr)) of
            Some t \<Rightarrow> Some t
          | None \<Rightarrow> Map_get (mgr_tools mgr) m)"
    for m
    by (simp add: getTools_eq Map_get_def index_after_fold last_named_def split: option.splits)
  have d: "distinct (map name (fst (getTools mgr))) \<longrightarrow>
        (\<forall>t \<in> set (fst (getTools mgr)).
           Map_get (mgr_tools (snd (getTools mgr))) (name t) = Some t)"
  proof (intro impI ballI)
    fix t assume "distinct (map name (fst (getTools mgr)))" "t \<in> set (fst (getTools mgr))"
    from last_named_distinct[OF this] idx[of "name t"]
    show "Map_get (mgr_tools (snd (getTools mgr))) (name t) = Some t" by simp
  qed
  have e: "n \<notin> name ` set (fst (getTools mgr)) \<longrightarrow>
         Map_get (mgr_tools (snd (getTools mgr))) n = Map_get (mgr_tools mgr) n"
  proof
    assume "n \<notin> name ` set (fst (getTools mgr))"
    then have "last_named n (fst (getTools mgr)) = None" by (simp add: last_named_None)
    with idx[of n] show "Map_get (mgr_tools (snd (getTools mgr))) n = Map_get (mgr_tools mgr) n"
      by simp
  qed
  have f: "callTool k (snd (getTools mgr)) tn a = callTool k mgr tn a"
    by (simp add: getTools_eq callTool_ignores_index)
  have g: "callTool k (mgr\<lparr>mgr_tools := idx\<rparr>) tn a = callTool k mgr tn a"
    by (rule callTool_ignores_index)
  from a b c idx[of n] d e f g show ?thesis by (intro conjI)
qed

theorem C5_getTools_witness:
  "fst (getTools ex_mgr) = [register_tool ''live'' echo_tool, register_tool ''stubborn'' echo_tool]
   \<and> distinct (map name (fst (getTools ex_mgr)))
   \<and> Map_get (mgr_tools (snd (getTools ex_mgr))) ''live__echo''
       = Some (register_tool ''live'' echo_tool)
   \<and> Map_get (mgr_tools (snd (getTools ex_mgr))) ''stubborn__echo''
       = Some (register_tool ''stubborn'' echo_tool)
   \<and> ''gone__echo'' \<notin> name ` set (fst (getTools ex_mgr))
   \<and> Map_get (mgr_tools (snd (getTools ex_mgr))) ''gone__echo'' = None"
proof -
  have ot: "operating_tools (Map_values (mgr_servers ex_mgr))
            = [register_tool ''live'' echo_tool, register_tool ''stubborn'' echo_tool]"
    by (simp add: operating_tools_def Map_values_def ex_mgr_def ex_server_def)
  note t = C5_getTools[of ex_mgr "''gone__echo''" ex_sdk "''x''" JNull "[]"]
  from t ot have a: "fst (getTools ex_mgr)
      = [register_tool ''live'' echo_tool, register_tool ''stubborn'' echo_tool]"
    by simp
  have nm: "name (register_tool ''live'' echo_tool) = ''live__echo''"
    "name (register_tool ''stubborn'' echo_tool) = ''stubborn__echo''"
    by (simp_all add: register_tool_def namespaced_def echo_tool_def)
  have dn: "distinct (map name (fst (getTools ex_mgr)))" using a nm by simp
  from t dn have all: "\<forall>t \<in> set (fst (getTools ex_mgr)).
           Map_get (mgr_tools (snd (getTools ex_mgr))) (name t) = Some t"
    by blast
  from all a nm have b1: "Map_get (mgr_tools (snd (getTools ex_mgr))) ''live__echo''
       = Some (register_tool ''live'' echo_tool)"
    by auto
  from all a nm have b2: "Map_get (mgr_tools (snd (getTools ex_mgr))) ''stubborn__echo''
       = Some (register_tool ''stubborn'' echo_tool)"
    by auto
  have c: "''gone__echo'' \<notin> name ` set (fst (getTools ex_mgr))"
    using a nm by simp
  from t have "''gone__echo'' \<notin> name ` set (fst (getTools ex_mgr)) \<longrightarrow>
      Map_get (mgr_tools (snd (getTools ex_mgr))) ''gone__echo''
        = Map_get (mgr_tools ex_mgr) ''gone__echo''"
    by (elim conjE) assumption
  with c have d: "Map_get (mgr_tools (snd (getTools ex_mgr))) ''gone__echo'' = None"
    by (simp add: ex_mgr_def Map_get_def)
  from a dn b1 b2 c d show ?thesis by (intro conjI)
qed

text \<open>
  Two operating servers, \<open>a\<close> with the tool \<open>b__c\<close> and \<open>a__b\<close> with the tool \<open>c\<close>,
  give two tools of the one name \<open>a__b__c\<close>: both are returned, and the index keeps
  the second.
\<close>

lemma getTools_same_name_example:
  "fst (getTools collide_mgr)
     = [register_tool ''a'' (echo_tool\<lparr>sdk_name := ''b__c''\<rparr>),
        register_tool ''a__b'' (echo_tool\<lparr>sdk_name := ''c''\<rparr>)]
   \<and> map name (fst (getTools collide_mgr)) = [''a__b__c'', ''a__b__c'']
   \<and> Map_get (mgr_tools (snd (getTools collide_mgr))) ''a__b__c''
       = Some (register_tool ''a__b'' (echo_tool\<lparr>sdk_name := ''c''\<rparr>))
   \<and> register_tool ''a'' (echo_tool\<lparr>sdk_name := ''b__c''\<rparr>)
       \<noteq> register_tool ''a__b'' (echo_tool\<lparr>sdk_name := ''c''\<rparr>)"
  by (simp add: getTools_def getTools_step_def Map_values_def collide_mgr_def Map_get_def
      register_tool_def namespaced_def echo_tool_def)

text \<open>
  C5, as stated, fails: the index is not what \<open>callTool\<close> routes by. After a load the
  index has no entry \<open>good__other\<close>, yet that call is forwarded to the server
  \<open>good\<close>; and with the index emptied, \<open>good__echo\<close> is still routed.
\<close>

theorem C5_counterexample:
  "Map_get (mgr_tools (snd (loadFromConfig ex_sdk rev ex_merged new_manager))) ''good__other'' = None
   \<and> callTool ex_sdk (snd (loadFromConfig ex_sdk rev ex_merged new_manager)) ''good__other'' JNull
     = Inr \<lparr>success = True, content = Some [JStr ''other''], result_error = None,
            metadata = Some \<lparr>meta_serverName = ''good'', meta_toolName = ''other''\<rparr>\<rparr>
   \<and> callTool ex_sdk ((snd (loadFromConfig ex_sdk rev ex_merged new_manager))\<lparr>mgr_tools := []\<rparr>)
        ''good__echo'' JNull
     = Inr \<lparr>success = True, content = Some [JStr ''echo''], result_error = None,
            metadata = Some \<lparr>meta_serverName = ''good'', meta_toolName = ''echo''\<rparr>\<rparr>"
proof -
  have m: "snd (loadFromConfig ex_sdk rev ex_merged new_manager)
            = \<lparr>mgr_servers = [(''good'', \<lparr>inst_name = ''good'', config = ex_config, state = OPERATING,
                 tools = [register_tool ''good'' echo_tool], source = Project, error = None\<rparr>)],
               mgr_tools = [(''good__echo'', register_tool ''good'' echo_tool)]\<rparr>"
    by (simp add: loadFromConfig_def ex_defs Object_entries_def load_entry_def
        connectServer_def connect_failed_def server_error_def Let_def sources_get_def
        new_manager_def getTools_def getTools_step_def Map_values_def echo_tool_def
        register_tool_def namespaced_def)
  show ?thesis
    by (simp only: m) (simp add: call_defs ex_sdk_def)
qed

subsection \<open>\<open>discoverConfigs\<close>\<close>

lemmas node_defs = discoverConfigs_def getProjectConfigPath_def getGlobalConfigPath_def
  loadConfigFile_def load_failed_def ex_node_def valid_text_def eacces_def Let_def

text \<open>
  What \<open>discoverConfigs\<close> does with each file. Each slot is \<open>loadConfigFile\<close> of its
  own path, so neither file affects the other slot and \<open>discoverConfigs\<close> returns on
  every input. An absent file (\<open>ENOENT\<close>) yields \<open>null\<close> without a warning; a file that
  cannot be read for another reason, or whose content is not JSON, yields \<open>null\<close> with a
  warning; what \<open>JSON.parse\<close> returns is handed on without a look at its structure.
\<close>

lemma discoverConfigs_slots:
  "global (discoverConfigs n wd) = fst (loadConfigFile n (getGlobalConfigPath n))
   \<and> project (discoverConfigs n wd) = fst (loadConfigFile n (getProjectConfigPath n wd))
   \<and> set (warnings (discoverConfigs n wd))
       = set_option (snd (loadConfigFile n (getGlobalConfigPath n)))
         \<union> set_option (snd (loadConfigFile n (getProjectConfigPath n wd)))
   \<and> (readFile n p = Inl err \<and> js_code err = Some ''ENOENT'' \<longrightarrow>
         loadConfigFile n p = (JNull, None))
   \<and> (readFile n p = Inl err \<and> js_code err \<noteq> Some ''ENOENT'' \<longrightarrow>
         loadConfigFile n p = (JNull, Some (load_warning p (js_message err))))
   \<and> (readFile n p = Inr body \<and> JSON_parse n body = Inl msg \<longrightarrow>
         loadConfigFile n p = (JNull, Some (load_warning p msg)))
   \<and> (readFile n p = Inr body \<and> JSON_parse n body = Inr parsed \<longrightarrow>
         loadConfigFile n p = (parsed, None))
   \<and> (readFile n (getGlobalConfigPath n) = Inr gbody \<and> JSON_parse n gbody = Inr g \<longrightarrow>
         global (discoverConfigs n wd) = g)
   \<and> (readFile n (getProjectConfigPath n wd) = Inr pbody \<and> JSON_parse n pbody = Inr pr \<longrightarrow>
         project (discoverConfigs n wd) = pr)"
  by (auto simp: discoverConfigs_def loadConfigFile_def load_failed_def load_warning_def Let_def
      split: option.splits)

text \<open>
  A valid global file beside a project file that is not JSON, one that cannot be read,
  none at all, and one that holds an array.
\<close>

lemma discoverConfigs_examples:
  "readFile ex_node (getGlobalConfigPath ex_node) = Inr valid_text
   \<and> JSON_parse ex_node valid_text = Inr (JObj [(''mcpServers'', JObj [])])
   \<and> is_McpConfig (JObj [(''mcpServers'', JObj [])])
   \<and> readFile ex_node (getProjectConfigPath ex_node (Some ''/broken'')) = Inr ''invalid json{''
   \<and> JSON_parse ex_node ''invalid json{'' = Inl ''Unexpected token i in JSON at position 0''
   \<and> global (discoverConfigs ex_node (Some ''/broken'')) = JObj [(''mcpServers'', JObj [])]
   \<and> loadConfigFile ex_node ''/broken/.yolo/mcp.json''
       = (JNull, Some (load_warning ''/broken/.yolo/mcp.json''
                          ''Unexpected token i in JSON at position 0''))
   \<and> readFile ex_node ''/locked/.yolo/mcp.json'' = Inl eacces
   \<and> loadConfigFile ex_node ''/locked/.yolo/mcp.json''
       = (JNull, Some (load_warning ''/locked/.yolo/mcp.json'' ''EACCES: permission denied''))
   \<and> loadConfigFile ex_node ''/nowhere/.yolo/mcp.json'' = (JNull, None)
   \<and> loadConfigFile ex_node ''/work/.yolo/mcp.json'' = (JArr [], None)"
proof -
  have g1: "readFile ex_node (getGlobalConfigPath ex_node) = Inr valid_text"
    by (simp add: getGlobalConfigPath_def ex_node_def Let_def)
  have g2: "JSON_parse ex_node valid_text = Inr (JObj [(''mcpServers'', JObj [])])"
    by (simp add: ex_node_def)
  have g3: "is_McpConfig (JObj [(''mcpServers'', JObj [])])"
    by (simp add: is_McpConfig_def)
  have b1: "readFile ex_node (getProjectConfigPath ex_node (Some ''/broken'')) = Inr ''invalid json{''"
    by (simp add: getProjectConfigPath_def ex_node_def Let_def)
  have b1': "readFile ex_node ''/broken/.yolo/mcp.json'' = Inr ''invalid json{''"
    by (simp add: ex_node_def)
  have b2: "JSON_parse ex_node ''invalid json{'' = Inl ''Unexpected token i in JSON at position 0''"
    by (simp add: ex_node_def valid_text_def)
  have l1: "readFile ex_node ''/locked/.yolo/mcp.json'' = Inl eacces"
    by (simp add: ex_node_def)
  have l2: "js_code eacces \<noteq> Some ''ENOENT''" by (simp add: eacces_def)
  have n1: "readFile ex_node ''/nowhere/.yolo/mcp.json''
       = Inl \<lparr>js_message = ''ENOENT: no such file or directory'', js_code = Some ''ENOENT''\<rparr>"
    by (simp add: ex_node_def)
  have w1: "readFile ex_node ''/work/.yolo/mcp.json'' = Inr ''[]''"
    by (simp add: ex_node_def)
  have w2: "JSON_parse ex_node ''[]'' = Inr (JArr [])"
    by (simp add: ex_node_def valid_text_def)
  have r1: "global (discoverConfigs ex_node (Some ''/broken'')) = JObj [(''mcpServers'', JObj [])]"
    using discoverConfigs_slots[where n = ex_node and wd = "Some ''/broken''" and gbody = valid_text
        and g = "JObj [(''mcpServers'', JObj [])]"] g1 g2 by blast
  have r2: "loadConfigFile ex_node ''/broken/.yolo/mcp.json''
       = (JNull, Some (load_warning ''/broken/.yolo/mcp.json''
                          ''Unexpected token i in JSON at position 0''))"
    using discoverConfigs_slots[where n = ex_node and p = "''/broken/.yolo/mcp.json''"
        and body = "''invalid json{''" and msg = "''Unexpected token i in JSON at position 0''"]
      b1' b2 by blast
  have r3: "loadConfigFile ex_node ''/locked/.yolo/mcp.json''
       = (JNull, Some (load_warning ''/locked/.yolo/mcp.json'' ''EACCES: permission denied''))"
    using discoverConfigs_slots[where n = ex_node and p = "''/locked/.yolo/mcp.json''"
        and err = eacces] l1 l2 by (simp add: eacces_def)
  have r4: "loadConfigFile ex_node ''/nowhere/.yolo/mcp.json'' = (JNull, None)"
    using discoverConfigs_slots[where n = ex_node and p = "''/nowhere/.yolo/mcp.json''"
        and err = "\<lparr>js_message = ''ENOENT: no such file or directory'', js_code = Some ''ENOENT''\<rparr>"]
      n1 by simp
  have r5: "loadConfigFile ex_node ''/work/.yolo/mcp.json'' = (JArr [], None)"
    using discoverConfigs_slots[where n = ex_node and p = "''/work/.yolo/mcp.json''"
        and body = "''[]''" and parsed = "JArr []"] w1 w2 by blast
  from g1 g2 g3 b1 b2 r1 r2 l1 r3 r4 r5 show ?thesis by (intro conjI)
qed

text \<open>
  C9 fails on the code for a file that is present and is valid JSON but not of the
  structure \<open>McpConfig\<close>. The project file holds \<open>[]\<close>: its slot is the parsed array, not
  \<open>null\<close>, and no warning is logged. (The valid global file beside it is loaded as the
  claim says.)
\<close>

theorem C9_wrong_shape_accepted:
  "global (discoverConfigs ex_node None) = JObj [(''mcpServers'', JObj [])]
   \<and> readFile ex_node (getProjectConfigPath ex_node None) = Inr ''[]''
   \<and> JSON_parse ex_node ''[]'' = Inr (JArr [])
   \<and> \<not> is_McpConfig (JArr [])
   \<and> project (discoverConfigs ex_node None) = JArr []
   \<and> project (discoverConfigs ex_node None) \<noteq> JNull
   \<and> warnings (discoverConfigs ex_node None) = []"
  by (simp add: node_defs is_McpConfig_def)

subsection \<open>\<open>mergeConfigs\<close>\<close>

lemma fold_merge_entry_lookup:
  assumes "nm \<noteq> ''__proto__''"
  shows "map_of (own (mcpServers (fold (merge_entry tag) es m))) nm
           = (case map_of (rev es) nm of Some c \<Rightarrow> Some c
              | None \<Rightarrow> map_of (own (mcpServers m)) nm)
       \<and> map_of (sources (fold (merge_entry tag) es m)) nm
           = (case map_of (rev es) nm of Some c \<Rightarrow> Some tag
              | None \<Rightarrow> map_of (sources m) nm)"
proof (induction es rule: rev_induct)
  case Nil
  show ?case by simp
next
  case (snoc e es)
  obtain k c where e: "e = (k, c)" by (cases e)
  show ?case
  proof (cases "k = ''__proto__''")
    case True
    with assms have "k \<noteq> nm" by auto
    with snoc e True show ?thesis
      by (simp add: merge_entry_def assign_object_def assign_primitive_def)
  next
    case False
    with snoc e show ?thesis
      by (simp add: merge_entry_def assign_object_def assign_primitive_def map_of_Map_set)
  qed
qed

text \<open>
  The name \<open>__proto__\<close> never becomes an own property of either object of the
  result.
\<close>

lemma fold_merge_entry_proto_not_own:
  "map_of (own (mcpServers (fold (merge_entry tag) es m))) ''__proto__''
     = map_of (own (mcpServers m)) ''__proto__''
   \<and> map_of (sources (fold (merge_entry tag) es m)) ''__proto__''
     = map_of (sources m) ''__proto__''"
proof (induction es rule: rev_induct)
  case Nil
  show ?case by simp
next
  case (snoc e es)
  then show ?case
    by (cases "fst e = ''__proto__''")
      (simp_all add: merge_entry_def assign_object_def assign_primitive_def map_of_Map_set)
qed

lemma map_of_rev_distinct: "distinct (map fst xs) \<Longrightarrow> map_of (rev xs) = map_of xs"
proof (induction xs)
  case Nil
  show ?case by simp
next
  case (Cons x xs)
  then have ih: "map_of (rev xs) = map_of xs" and fresh: "map_of xs (fst x) = None"
    by (auto simp: map_of_eq_None_iff)
  show ?case
  proof
    fix k
    show "map_of (rev (x # xs)) k = map_of (x # xs) k"
      using ih fresh by (cases x) (auto simp: map_add_def split: option.splits)
  qed
qed

lemma mergeConfigs_fold:
  "mergeConfigs glob proj
     = fold (merge_entry Project) (entries_of proj)
         (fold (merge_entry Global) (entries_of glob)
            \<lparr>mcpServers = \<lparr>own = [], proto = None\<rparr>, sources = []\<rparr>)"
  by (simp add: mergeConfigs_def entries_of_def Let_def split: option.splits)

text \<open>
  For every name but \<open>__proto__\<close> the merge is precedence with provenance: a name of
  the project configuration maps to the project's entry with tag \<open>project\<close>, a name
  only in the global configuration to the global entry with tag \<open>global\<close>, and no
  other name appears.
\<close>

lemma mergeConfigs_ordinary_names:
  assumes "nm \<noteq> ''__proto__''"
    and "distinct (map fst (entries_of glob))" and "distinct (map fst (entries_of proj))"
  shows "map_of (own (mcpServers (mergeConfigs glob proj))) nm
           = (case map_of (entries_of proj) nm of Some c \<Rightarrow> Some c
              | None \<Rightarrow> map_of (entries_of glob) nm)
       \<and> map_of (sources (mergeConfigs glob proj)) nm
           = (case map_of (entries_of proj) nm of Some c \<Rightarrow> Some Project
              | None \<Rightarrow> (case map_of (entries_of glob) nm of Some c \<Rightarrow> Some Global
                         | None \<Rightarrow> None))"
proof -
  have r: "map_of (rev xs) = map_of xs" if "distinct (map fst xs)" for xs :: McpConfig
    using that by (rule map_of_rev_distinct)
  show ?thesis
    using fold_merge_entry_lookup[OF assms(1)] r[OF assms(2)] r[OF assms(3)]
    by (simp add: mergeConfigs_fold split: option.splits)
qed

lemma mergeConfigs_null: "mergeConfigs None None = \<lparr>mcpServers = \<lparr>own = [], proto = None\<rparr>, sources = []\<rparr>"
  by (simp add: mergeConfigs_def)

text \<open>
  C2 fails on the code for the server name \<open>__proto__\<close>, which a configuration file
  may use as a key (\<open>JSON.parse\<close> makes it an own property). The project
  configuration defines that server, but the merged configuration has no such entry:
  the assignment replaced the prototype of \<open>merged.mcpServers\<close>, and the source tag
  was not stored at all.
\<close>

theorem C2_proto_name_dropped:
  "mergeConfigs (Some [(''github'', ex_config)]) (Some [(''__proto__'', bad_config)])
     = \<lparr>mcpServers = \<lparr>own = [(''github'', ex_config)], proto = Some bad_config\<rparr>,
        sources = [(''github'', Global)]\<rparr>
   \<and> map_of [(''__proto__'', bad_config)] ''__proto__'' = Some bad_config
   \<and> map_of (Object_entries (mcpServers
        (mergeConfigs (Some [(''github'', ex_config)]) (Some [(''__proto__'', bad_config)]))))
        ''__proto__'' = None
   \<and> sources_get (sources
        (mergeConfigs (Some [(''github'', ex_config)]) (Some [(''__proto__'', bad_config)])))
        ''__proto__'' = None"
  by (simp add: mergeConfigs_def merge_entry_def assign_object_def assign_primitive_def
      Object_entries_def sources_get_def)

end
